theory Spec2Isabelle
  imports Main
begin

section \<open>Package validators: pure string checks\<close>

text \<open>
  A Go string is a sequence of bytes; \<open>len\<close> counts bytes and \<open>val[i]\<close> reads one byte.
  It is modelled as \<^typ>\<open>string\<close> (a list of 8-bit characters). Byte comparisons such as
  \<open>val[i] >= 'a'\<close> compare the numeric byte values, written here with \<^const>\<open>of_char\<close>.
\<close>

definition byte_val :: "char \<Rightarrow> nat" where
  "byte_val c = of_char c"

subsection \<open>Base64URL and ItemID\<close>

text \<open>The body of the loop of \<open>Base64URL\<close>: the local \<open>valid\<close> computed for byte \<open>c = val[i]\<close>.\<close>

definition Base64URL_valid :: "char \<Rightarrow> bool" where
  "Base64URL_valid c \<longleftrightarrow>
     (byte_val c \<ge> byte_val (CHR ''a'') \<and> byte_val c \<le> byte_val (CHR ''z'')) \<or>
     (byte_val c \<ge> byte_val (CHR ''A'') \<and> byte_val c \<le> byte_val (CHR ''Z'')) \<or>
     (byte_val c \<ge> byte_val (CHR ''0'') \<and> byte_val c \<le> byte_val (CHR ''9'')) \<or>
     c = CHR ''_'' \<or> c = CHR ''-''"

text \<open>
  \<open>for i := 0; i < expectLen; i++\<close>: the loop from index \<open>i\<close> on, returning \<open>false\<close> at the
  first invalid byte and \<open>true\<close> when the index reaches \<open>expectLen\<close>. A read \<open>val[i]\<close> beyond
  the string panics in Go; the loop is only entered with \<open>len(val) = expectLen\<close>, and the
  model returns \<open>None\<close> for such a read so that the panic is a value.
\<close>

function Base64URL_loop :: "string \<Rightarrow> nat \<Rightarrow> nat \<Rightarrow> bool option" where
  "Base64URL_loop val expectLen i =
     (if i < expectLen then
        (if i < length val then
           (if \<not> Base64URL_valid (val ! i) then Some False
            else Base64URL_loop val expectLen (Suc i))
         else None)
      else Some True)"
  by pat_completeness auto
termination
  by (relation "measure (\<lambda>(val, expectLen, i). expectLen - i)") auto

text \<open>\<open>expectLen\<close> is a Go \<open>int\<close>, so it may be negative; then the length test already fails.\<close>

definition Base64URL :: "string \<Rightarrow> int \<Rightarrow> bool option" where
  "Base64URL val expectLen =
     (if int (length val) \<noteq> expectLen then Some False
      else Base64URL_loop val (nat expectLen) 0)"

definition ItemID :: "string \<Rightarrow> bool option" where
  "ItemID val = Base64URL val 21"

subsection \<open>IsHostname\<close>

text \<open>
  The state of the loop of \<open>IsHostname\<close>: the locals \<open>last\<close> (here \<open>last_byte\<close>),
  \<open>nonNumeric\<close> and \<open>partlen\<close>.
\<close>

record hostname_state =
  last_byte :: char
  nonNumeric :: bool
  partlen :: nat

text \<open>
  One iteration of the loop on byte \<open>c\<close>: the \<open>switch\<close> followed by \<open>last = c\<close>.
  \<open>None\<close> is \<open>return false\<close> from inside the loop. The cases are tried in the order of the
  source (\<open>default\<close> applies when no case matches).
\<close>

definition IsHostname_step :: "hostname_state \<Rightarrow> char \<Rightarrow> hostname_state option" where
  "IsHostname_step st c =
     (if (byte_val (CHR ''a'') \<le> byte_val c \<and> byte_val c \<le> byte_val (CHR ''z'')) \<or>
         (byte_val (CHR ''A'') \<le> byte_val c \<and> byte_val c \<le> byte_val (CHR ''Z'')) \<or>
         c = CHR ''_'' then
        Some (st\<lparr>nonNumeric := True, partlen := partlen st + 1, last_byte := c\<rparr>)
      else if byte_val (CHR ''0'') \<le> byte_val c \<and> byte_val c \<le> byte_val (CHR ''9'') then
        Some (st\<lparr>partlen := partlen st + 1, last_byte := c\<rparr>)
      else if c = CHR ''-'' then
        (if last_byte st = CHR ''.'' then None
         else Some (st\<lparr>partlen := partlen st + 1, nonNumeric := True, last_byte := c\<rparr>))
      else if c = CHR ''.'' then
        (if last_byte st = CHR ''.'' \<or> last_byte st = CHR ''-'' then None
         else if partlen st > 63 \<or> partlen st = 0 then None
         else Some (st\<lparr>partlen := 0, last_byte := c\<rparr>))
      else None)"

text \<open>\<open>for i := 0; i < len(s); i++ { c := s[i]; ... }\<close>: the bytes of \<open>s\<close> in order.\<close>

fun IsHostname_loop :: "hostname_state \<Rightarrow> string \<Rightarrow> hostname_state option" where
  "IsHostname_loop st [] = Some st"
| "IsHostname_loop st (c # cs) =
     (case IsHostname_step st c of
        None \<Rightarrow> None
      | Some st' \<Rightarrow> IsHostname_loop st' cs)"

definition IsHostname :: "string \<Rightarrow> bool" where
  "IsHostname s =
     (if s = ''.'' then True
      else
        let l = length s in
        if l = 0 \<or> l > 254 \<or> (l = 254 \<and> s ! (l - 1) \<noteq> CHR ''.'') then False
        else
          (case IsHostname_loop \<lparr>last_byte = CHR ''.'', nonNumeric = False, partlen = 0\<rparr> s of
             None \<Rightarrow> False
           | Some st \<Rightarrow>
               if last_byte st = CHR ''-'' \<or> partlen st > 63 then False
               else nonNumeric st))"

section \<open>Package server: TLS configuration and the server lifecycle\<close>

subsection \<open>Errors\<close>

text \<open>
  One constructor for each place where the source creates an error; \<open>%w\<close> wrapping keeps the
  wrapped error as an argument, and a path formatted into the message is an argument too.
  \<open>ExternalError\<close> is an error value returned by a library call or by code outside this
  file, identified by its message.

  \<^item> \<open>ErrNoCAPath\<close>: "cannot find a CA certificate, which is required when tlsClientAuth is
    enabled: no path specified in option tlsPath, and no config file was loaded";
  \<^item> \<open>ErrLoadCAFile path err\<close>: "failed to load CA certificate file from path ... and
    'tlsClientAuth' option is enabled: ...";
  \<^item> \<open>ErrImportCA path\<close>: "failed to import CA certificate from PEM found at path ...";
  \<^item> \<open>ErrLoadTLSCerts path err\<close>: "failed to load TLS certificates from path ...: ...";
  \<^item> \<open>ErrParseKeyPair err\<close>: "failed to parse TLS certificate or key: ...";
  \<^item> \<open>ErrAlreadyRunning\<close>: "server is already running";
  \<^item> \<open>ErrStartAppServer err\<close>: "failed to start app server: ...";
  \<^item> \<open>ErrStartMetricsServer err\<close>: "failed to start metrics server: ...";
  \<^item> \<open>ErrWatchTLS err\<close>: "failed to watch for TLS certificates: ...";
  \<^item> \<open>ErrCreateListener err\<close>: "failed to create TCP listener: ...";
  \<^item> \<open>ErrServerClosed\<close>: the value \<open>http.ErrServerClosed\<close> of the library, which the serving
    goroutines compare with.
\<close>

datatype error =
    ExternalError string
  | ErrNoCAPath
  | ErrLoadCAFile string error
  | ErrImportCA string
  | ErrLoadTLSCerts string error
  | ErrParseKeyPair error
  | ErrAlreadyRunning
  | ErrStartAppServer error
  | ErrStartMetricsServer error
  | ErrWatchTLS error
  | ErrCreateListener error
  | ErrServerClosed

subsection \<open>Configuration and TLS data\<close>

text \<open>The fields of \<open>config.Get()\<close> that the server reads; \<open>LoadedConfigPath\<close> is the
  value of \<open>GetLoadedConfigPath()\<close>.\<close>

record Config =
  TLSPath :: string
  LoadedConfigPath :: string
  TLSClientAuth :: bool
  TLSCAPEM :: string
  TLSCertPEM :: string
  TLSKeyPEM :: string
  EnableMetrics :: bool
  Bind :: string
  Port :: int
  MetricsBind :: string
  MetricsPort :: int

text \<open>\<open>tls.ClientAuthType\<close>, in the order of the constants of \<open>crypto/tls\<close>; the zero value
  of a fresh \<open>tls.Config\<close> is \<open>NoClientCert\<close>.\<close>

datatype ClientAuthType =
    NoClientCert
  | RequestClientCert
  | RequireAnyClientCert
  | VerifyClientCertIfGiven
  | RequireAndVerifyClientCert

text \<open>
  The fields of \<open>tls.Config\<close> that \<open>loadTLSConfig\<close> sets. Certificate pools, parsed
  certificates and certificate providers are values of the type parameters \<open>'pool\<close>,
  \<open>'cert\<close> and \<open>'prov\<close>: the code only passes them on. \<open>GetCertificate\<close> holds the
  provider whose \<open>GetCertificateFn()\<close> was attached, and a watch function is the provider
  whose \<open>Watch\<close> method it is.
\<close>

record ('pool, 'cert, 'prov) tls_Config =
  MinVersion :: nat
  ClientAuth :: ClientAuthType
  ClientCAs :: "'pool option"
  Certificates :: "'cert list"
  GetCertificate :: "'prov option"

text \<open>
  What \<open>loadTLSConfig\<close> calls outside this file: the constants \<open>minTLSVersion\<close> and
  \<open>tlsCAFile\<close>, \<open>filepath.Dir\<close> and \<open>filepath.Join\<close>, \<open>os.ReadFile\<close>,
  \<open>x509.NewCertPool\<close> with \<open>AppendCertsFromPEM\<close> (the pool after the call and the \<open>ok\<close>
  flag), \<open>tls.X509KeyPair\<close> and \<open>newTLSCertProvider\<close> (which returns a nil provider when
  the directory holds no certificates).
\<close>

record ('pool, 'cert, 'prov) tls_env =
  minTLSVersion :: nat
  tlsCAFile :: string
  filepath_Dir :: "string \<Rightarrow> string"
  filepath_Join :: "string \<Rightarrow> string \<Rightarrow> string"
  os_ReadFile :: "string \<Rightarrow> error + string"
  NewCertPool :: "'pool"
  AppendCertsFromPEM :: "'pool \<Rightarrow> string \<Rightarrow> 'pool \<times> bool"
  X509KeyPair :: "string \<Rightarrow> string \<Rightarrow> error + 'cert"
  newTLSCertProvider :: "string \<Rightarrow> error + 'prov option"

type_synonym ('pool, 'cert, 'prov) tls_result =
  "('pool, 'cert, 'prov) tls_Config option \<times> 'prov option \<times> error option"

subsection \<open>loadTLSConfig\<close>

text \<open>Lines 435-442: if \<open>tlsPath\<close> is empty, the folder of the loaded config file, if any.\<close>

definition resolve_tlsPath :: "('pool, 'cert, 'prov) tls_env \<Rightarrow> Config \<Rightarrow> string" where
  "resolve_tlsPath env cfg =
     (let tlsPath = TLSPath cfg in
      if tlsPath = [] then
        (let file = LoadedConfigPath cfg in
         if file \<noteq> [] then filepath_Dir env file else tlsPath)
      else tlsPath)"

text \<open>
  Lines 445-480, the body of \<open>if cfg.TLSClientAuth\<close>: the CA bytes from the inline value or
  from the file \<open>tlsCAFile\<close> under \<open>tlsPath\<close>, the pool built from them, and the
  configuration with \<open>ClientAuth\<close> and \<open>ClientCAs\<close> set. \<open>Inl\<close> is the error of an early
  \<open>return nil, nil, err\<close>.
\<close>

definition load_caCert :: "('pool, 'cert, 'prov) tls_env \<Rightarrow> Config \<Rightarrow> string \<Rightarrow> error + string" where
  "load_caCert env cfg tlsPath =
     (let caCert = TLSCAPEM cfg in
      if length caCert > 0 then Inr caCert
      else if tlsPath = [] then Inl ErrNoCAPath
      else
        (case os_ReadFile env (filepath_Join env tlsPath (tlsCAFile env)) of
           Inl err \<Rightarrow> Inl (ErrLoadCAFile tlsPath err)
         | Inr caCert' \<Rightarrow> Inr caCert'))"

definition enable_clientAuth ::
  "('pool, 'cert, 'prov) tls_env \<Rightarrow> Config \<Rightarrow> string \<Rightarrow> ('pool, 'cert, 'prov) tls_Config \<Rightarrow>
   error + ('pool, 'cert, 'prov) tls_Config" where
  "enable_clientAuth env cfg tlsPath tlsConfig =
     (case load_caCert env cfg tlsPath of
        Inl err \<Rightarrow> Inl err
      | Inr caCert \<Rightarrow>
          (let (caCertPool, ok) = AppendCertsFromPEM env (NewCertPool env) caCert in
           if \<not> ok then Inl (ErrImportCA tlsPath)
           else Inr (tlsConfig\<lparr>ClientAuth := VerifyClientCertIfGiven,
                               ClientCAs := Some caCertPool\<rparr>)))"

text \<open>
  Lines 482-528: the server certificate and key. With both inline values empty the
  certificates come from a provider on \<open>tlsPath\<close> (or TLS is off); with exactly one of them
  empty the function returns three nils; with both present they are parsed as a pair.
\<close>

definition load_serverCert ::
  "('pool, 'cert, 'prov) tls_env \<Rightarrow> Config \<Rightarrow> string \<Rightarrow> ('pool, 'cert, 'prov) tls_Config \<Rightarrow>
   ('pool, 'cert, 'prov) tls_result" where
  "load_serverCert env cfg tlsPath tlsConfig =
     (let tlsCert = TLSCertPEM cfg; tlsKey = TLSKeyPEM cfg in
      if tlsCert = [] \<and> tlsKey = [] then
        (if tlsPath = [] then (None, None, None)
         else
           (case newTLSCertProvider env tlsPath of
              Inl err \<Rightarrow> (None, None, Some (ErrLoadTLSCerts tlsPath err))
            | Inr None \<Rightarrow> (None, None, None)
            | Inr (Some provider) \<Rightarrow>
                (Some (tlsConfig\<lparr>GetCertificate := Some provider\<rparr>), Some provider, None)))
      else if tlsCert = [] \<or> tlsKey = [] then (None, None, None)
      else
        (case X509KeyPair env tlsCert tlsKey of
           Inl err \<Rightarrow> (None, None, Some (ErrParseKeyPair err))
         | Inr cert \<Rightarrow> (Some (tlsConfig\<lparr>Certificates := [cert]\<rparr>), None, None)))"

text \<open>The whole function; the \<open>log.Debug\<close> calls have no effect on the result.\<close>

definition loadTLSConfig ::
  "('pool, 'cert, 'prov) tls_env \<Rightarrow> Config \<Rightarrow> ('pool, 'cert, 'prov) tls_result" where
  "loadTLSConfig env cfg =
     (let tlsConfig = \<lparr>MinVersion = minTLSVersion env, ClientAuth = NoClientCert,
                       ClientCAs = None, Certificates = [], GetCertificate = None\<rparr>;
          tlsPath = resolve_tlsPath env cfg
      in
        if TLSClientAuth cfg then
          (case enable_clientAuth env cfg tlsPath tlsConfig of
             Inl err \<Rightarrow> (None, None, Some err)
           | Inr tlsConfig' \<Rightarrow> load_serverCert env cfg tlsPath tlsConfig')
        else load_serverCert env cfg tlsPath tlsConfig)"

subsection \<open>The server and its environment\<close>

datatype server_id = AppServer | MetricsServer

text \<open>\<open>http.Server\<close> as the two \<open>start\<close> functions fill it in; \<open>Addr\<close> is the host and the
  port that \<open>net.JoinHostPort\<close> joins. \<open>MaxHeaderBytes\<close> and \<open>ReadHeaderTimeout\<close> are the
  same constants in both servers and are left out.\<close>

datatype handler = AppRouter | H2CHandler | MetricsMux

record ('pool, 'cert, 'prov) http_Server =
  Addr :: "string \<times> int"
  Handler :: handler
  TLSConfig :: "('pool, 'cert, 'prov) tls_Config option"

text \<open>
  A \<open>net.Listener\<close>: the address it is bound to, and whether it has been closed. A closed
  listener stays in the field of the server that holds it.
\<close>

record Listener =
  l_addr :: "string \<times> int"
  l_closed :: bool

text \<open>
  A serving goroutine launched by a \<open>start\<close> function: it is running; or it is on its way
  to \<open>log.Fatal\<close> with the error that \<open>Serve\<close> returned; or its function has returned.
\<close>

datatype task = TaskRunning | TaskFatal error | TaskExited

fun is_fatal :: "task option \<Rightarrow> bool" where
  "is_fatal (Some (TaskFatal err)) = True"
| "is_fatal t = False"

text \<open>
  What \<open>Run\<close> does that can be observed from outside, in the order in which the goroutine
  that executes \<open>Run\<close> does it. \<open>Shutdown\<close> carries the timeout of its context in
  milliseconds; \<open>GoServe\<close> is the launch of the goroutine that serves a listener.
\<close>

datatype event =
    CompareAndSwapRunning
  | WgAdd
  | Listen "string \<times> int"
  | GoServe server_id
  | WatchTLS
  | CtxDone
  | Shutdown server_id nat
  | LogWarn server_id error
  | WgDone
  | WgWait
  | StoreRunning bool

text \<open>
  The fields of \<open>Server\<close> that \<open>Run\<close> reads or writes. \<open>running\<close> is the \<open>atomic.Bool\<close>,
  \<open>wg\<close> the counter of the \<open>sync.WaitGroup\<close>. Three fields are not fields of the source:
  \<open>appTask\<close> and \<open>metricsTask\<close> are the serving goroutines that the last start launched,
  and \<open>events\<close> is the history of what this server has done so far.
\<close>

record ('pool, 'cert, 'prov) Server =
  appSrv :: "('pool, 'cert, 'prov) http_Server option"
  metricsSrv :: "('pool, 'cert, 'prov) http_Server option"
  tlsCertWatchFn :: "'prov option"
  tlsConfig :: "('pool, 'cert, 'prov) tls_Config option"
  running :: bool
  wg :: nat
  appListener :: "Listener option"
  metricsListener :: "Listener option"
  appTask :: "task option"
  metricsTask :: "task option"
  events :: "event list"

text \<open>
  How far the goroutine that serves a server has come when \<open>Shutdown\<close> of that server
  returns. Nothing in \<open>Run\<close> synchronises with it, so the scheduler decides:
  \<^item> \<open>NotYetServing\<close>: it has not entered \<open>Serve\<close> yet, so \<open>Shutdown\<close> found no listener of
    this server to close; the listener is still open and the goroutine still has to run;
  \<^item> \<open>ServeReturned\<close>: \<open>Shutdown\<close> closed the listener and \<open>Serve\<close> returned
    \<open>ErrServerClosed\<close>, but the goroutine has not returned yet;
  \<^item> \<open>GoroutineExited\<close>: the goroutine ran its deferred \<open>Close\<close> and returned.
\<close>

datatype progress = NotYetServing | ServeReturned | GoroutineExited

text \<open>
  What the world outside \<open>Run\<close> decides: whether \<open>net.Listen\<close> succeeds on an address
  (\<open>None\<close>) or fails; the error with which \<open>Serve\<close> or \<open>ServeTLS\<close> of a server returns on an
  open listener (\<open>ErrServerClosed\<close> when it serves until \<open>Shutdown\<close>); how far the serving
  goroutine has come at \<open>Shutdown\<close>; what the watch function of a provider returns; whether
  the context passed to \<open>Run\<close> is ever cancelled; and what \<open>Shutdown\<close> of each server returns.
\<close>

record 'prov run_env =
  net_Listen :: "string \<times> int \<Rightarrow> error option"
  Serve_result :: "server_id \<Rightarrow> error"
  progress_at_Shutdown :: "server_id \<Rightarrow> progress"
  watch_result :: "'prov \<Rightarrow> error option"
  ctx_cancelled :: bool
  srv_Shutdown :: "server_id \<Rightarrow> error option"

text \<open>
  A call either comes back with a state, or blocks forever, or panics; the state is the one
  reached at that point (the unwinding of a panic is not followed further).
\<close>

datatype 's flow = Finished 's | BlockedForever 's | Panicked 's

definition log_event :: "event \<Rightarrow> ('pool, 'cert, 'prov) Server \<Rightarrow> ('pool, 'cert, 'prov) Server" where
  "log_event e s = s\<lparr>events := events s @ [e]\<rparr>"

subsection \<open>The wait group\<close>

text \<open>
  \<open>Add(1)\<close> increments the counter; \<open>Done\<close> decrements it and panics below zero; \<open>Wait\<close>
  returns once the counter is zero. In this file only \<open>Run\<close> and its deferred closures touch
  \<open>s.wg\<close> (the serving goroutines do not), so a \<open>Wait\<close> that finds a counter above zero
  after the closures have run is never released.
\<close>

definition wg_Add :: "('pool, 'cert, 'prov) Server \<Rightarrow> ('pool, 'cert, 'prov) Server" where
  "wg_Add s = log_event WgAdd (s\<lparr>wg := wg s + 1\<rparr>)"

definition wg_Done :: "('pool, 'cert, 'prov) Server \<Rightarrow> ('pool, 'cert, 'prov) Server flow" where
  "wg_Done s = (if wg s = 0 then Panicked s else Finished (log_event WgDone (s\<lparr>wg := wg s - 1\<rparr>)))"

definition wg_Wait :: "('pool, 'cert, 'prov) Server \<Rightarrow> ('pool, 'cert, 'prov) Server flow" where
  "wg_Wait s = (if wg s = 0 then Finished (log_event WgWait s) else BlockedForever s)"

subsection \<open>The serving goroutines\<close>

text \<open>
  Lines 365-378 and 414-422, the function that \<open>go\<close> launches on listener \<open>l\<close>: \<open>srvErr\<close> is
  what \<open>Serve\<close> (or \<open>ServeTLS\<close>) returns, and any value other than \<open>http.ErrServerClosed\<close>
  goes to \<open>log.Fatal\<close>, which ends the process. On a listener that is already closed the
  first \<open>Accept\<close> fails, so \<open>Serve\<close> returns that error at once. Otherwise the goroutine
  serves until \<open>Shutdown\<close>; its deferred \<open>Close\<close> and its return come later
  (\<open>after_Shutdown\<close> below).
\<close>

definition serving_goroutine :: "'prov run_env \<Rightarrow> server_id \<Rightarrow> Listener \<Rightarrow> task" where
  "serving_goroutine env sid l =
     (let srvErr = (if l_closed l then ExternalError ''use of closed network connection''
                    else Serve_result env sid)
      in if srvErr \<noteq> ErrServerClosed then TaskFatal srvErr else TaskRunning)"

fun close_listener :: "server_id \<Rightarrow> ('pool, 'cert, 'prov) Server \<Rightarrow> ('pool, 'cert, 'prov) Server" where
  "close_listener AppServer s =
     s\<lparr>appListener := map_option (\<lambda>l. l\<lparr>l_closed := True\<rparr>) (appListener s)\<rparr>"
| "close_listener MetricsServer s =
     s\<lparr>metricsListener := map_option (\<lambda>l. l\<lparr>l_closed := True\<rparr>) (metricsListener s)\<rparr>"

fun goroutine_returns :: "server_id \<Rightarrow> ('pool, 'cert, 'prov) Server \<Rightarrow> ('pool, 'cert, 'prov) Server" where
  "goroutine_returns AppServer s = s\<lparr>appTask := Some TaskExited\<rparr>"
| "goroutine_returns MetricsServer s = s\<lparr>metricsTask := Some TaskExited\<rparr>"

text \<open>
  The listener and the serving goroutine of a server when \<open>Shutdown\<close> of that server has
  returned.
\<close>

definition after_Shutdown ::
  "'prov run_env \<Rightarrow> server_id \<Rightarrow> ('pool, 'cert, 'prov) Server \<Rightarrow> ('pool, 'cert, 'prov) Server" where
  "after_Shutdown env sid s =
     (case progress_at_Shutdown env sid of
        NotYetServing \<Rightarrow> s
      | ServeReturned \<Rightarrow> close_listener sid s
      | GoroutineExited \<Rightarrow> goroutine_returns sid (close_listener sid s))"

subsection \<open>startAppServer and startMetricsServer\<close>

text \<open>
  Each function stores the \<open>http.Server\<close> first, so the field is set also when the function
  fails; it creates the listener only when the server holds none, and this is the one step
  that can make it return an error; then it launches the goroutine that serves the
  listener, whatever state a listener that the server already held is in.
\<close>

definition startAppServer ::
  "'prov run_env \<Rightarrow> Config \<Rightarrow> ('pool, 'cert, 'prov) Server \<Rightarrow>
   error option \<times> ('pool, 'cert, 'prov) Server" where
  "startAppServer env cfg s =
     (let srv = \<lparr>Addr = (Bind cfg, Port cfg),
                 Handler = (if tlsConfig s \<noteq> None then AppRouter else H2CHandler),
                 TLSConfig = tlsConfig s\<rparr>;
          s1 = s\<lparr>appSrv := Some srv\<rparr>
      in
        case appListener s1 of
          Some l \<Rightarrow>
            (None, log_event (GoServe AppServer)
                     (s1\<lparr>appTask := Some (serving_goroutine env AppServer l)\<rparr>))
        | None \<Rightarrow>
            (case net_Listen env (Addr srv) of
               Some err \<Rightarrow> (Some (ErrCreateListener err), log_event (Listen (Addr srv)) s1)
             | None \<Rightarrow>
                 (let l = \<lparr>l_addr = Addr srv, l_closed = False\<rparr> in
                  (None, log_event (GoServe AppServer)
                           (log_event (Listen (Addr srv))
                              (s1\<lparr>appListener := Some l,
                                  appTask := Some (serving_goroutine env AppServer l)\<rparr>))))))"

definition startMetricsServer ::
  "'prov run_env \<Rightarrow> Config \<Rightarrow> ('pool, 'cert, 'prov) Server \<Rightarrow>
   error option \<times> ('pool, 'cert, 'prov) Server" where
  "startMetricsServer env cfg s =
     (let srv = \<lparr>Addr = (MetricsBind cfg, MetricsPort cfg), Handler = MetricsMux,
                 TLSConfig = None\<rparr>;
          s1 = s\<lparr>metricsSrv := Some srv\<rparr>
      in
        case metricsListener s1 of
          Some l \<Rightarrow>
            (None, log_event (GoServe MetricsServer)
                     (s1\<lparr>metricsTask := Some (serving_goroutine env MetricsServer l)\<rparr>))
        | None \<Rightarrow>
            (case net_Listen env (Addr srv) of
               Some err \<Rightarrow> (Some (ErrCreateListener err), log_event (Listen (Addr srv)) s1)
             | None \<Rightarrow>
                 (let l = \<lparr>l_addr = Addr srv, l_closed = False\<rparr> in
                  (None, log_event (GoServe MetricsServer)
                           (log_event (Listen (Addr srv))
                              (s1\<lparr>metricsListener := Some l,
                                  metricsTask := Some (serving_goroutine env MetricsServer l)\<rparr>))))))"

subsection \<open>Run\<close>

text \<open>
  The calls that \<open>Run\<close> defers, in the order of the source: \<open>s.running.Store(false)\<close>,
  \<open>s.wg.Wait()\<close>, the closure that shuts the app server down and the closure that shuts
  the metrics server down.
\<close>

datatype deferred =
    Defer_running_Store_false
  | Defer_wg_Wait
  | Defer_app_Shutdown
  | Defer_metrics_Shutdown

text \<open>
  A shutdown closure: \<open>Shutdown\<close> under a context with the given timeout, a warning logged
  when it returns an error, and then the \<open>s.wg.Done()\<close> that the closure itself defers.
  Calling \<open>Shutdown\<close> on a nil server panics.
\<close>

definition shutdown_closure ::
  "'prov run_env \<Rightarrow> server_id \<Rightarrow> nat \<Rightarrow> bool \<Rightarrow> ('pool, 'cert, 'prov) Server \<Rightarrow>
   ('pool, 'cert, 'prov) Server flow" where
  "shutdown_closure env sid timeout_ms srv_is_nil s =
     (if srv_is_nil then Panicked s
      else
        let s1 = after_Shutdown env sid (log_event (Shutdown sid timeout_ms) s);
            s2 = (case srv_Shutdown env sid of
                    None \<Rightarrow> s1
                  | Some err \<Rightarrow> log_event (LogWarn sid err) s1)
        in wg_Done s2)"

fun call_deferred ::
  "'prov run_env \<Rightarrow> deferred \<Rightarrow> ('pool, 'cert, 'prov) Server \<Rightarrow> ('pool, 'cert, 'prov) Server flow" where
  "call_deferred env Defer_running_Store_false s =
     Finished (log_event (StoreRunning False) (s\<lparr>running := False\<rparr>))"
| "call_deferred env Defer_wg_Wait s = wg_Wait s"
| "call_deferred env Defer_app_Shutdown s =
     shutdown_closure env AppServer 5000 (appSrv s = None) s"
| "call_deferred env Defer_metrics_Shutdown s =
     shutdown_closure env MetricsServer 500 (metricsSrv s = None) s"

text \<open>
  When a function returns, its deferred calls run last-in-first-out. The list holds the
  most recently deferred call first; a call that blocks or panics keeps the later ones from
  running.
\<close>

fun run_deferred ::
  "'prov run_env \<Rightarrow> deferred list \<Rightarrow> ('pool, 'cert, 'prov) Server \<Rightarrow> ('pool, 'cert, 'prov) Server flow" where
  "run_deferred env [] s = Finished s"
| "run_deferred env (d # ds) s =
     (case call_deferred env d s of
        Finished s' \<Rightarrow> run_deferred env ds s'
      | BlockedForever s' \<Rightarrow> BlockedForever s'
      | Panicked s' \<Rightarrow> Panicked s')"

text \<open>
  The body of \<open>Run\<close> after the two first \<open>defer\<close> statements, up to a \<open>return\<close>: the value
  returned, the deferred calls registered so far and the state. \<open>BodyBlocks\<close> is the receive
  \<open><-ctx.Done()\<close> on a context that is never cancelled. \<open>BodyExits\<close> is the end of the
  process by \<open>log.Fatal\<close> in a serving goroutine: no deferred call runs then. The goroutine
  runs beside \<open>Run\<close>; the model lets a failing one end the process as soon as it is
  launched, so the state of \<open>BodyExits\<close> is the one at the launch.
\<close>

datatype ('s) body =
    BodyReturns "error option" "deferred list" 's
  | BodyBlocks 's
  | BodyExits 's

text \<open>Lines 314-326: the watch function, then the wait for the cancellation.\<close>

definition Run_watch_and_block ::
  "'prov run_env \<Rightarrow> deferred list \<Rightarrow> ('pool, 'cert, 'prov) Server \<Rightarrow>
   ('pool, 'cert, 'prov) Server body" where
  "Run_watch_and_block env ds s =
     (let (err, s1) = (case tlsCertWatchFn s of
                         None \<Rightarrow> (None, s)
                       | Some provider \<Rightarrow> (watch_result env provider, log_event WatchTLS s))
      in case err of
           Some e \<Rightarrow> BodyReturns (Some (ErrWatchTLS e)) ds s1
         | None \<Rightarrow>
             if ctx_cancelled env then BodyReturns None ds (log_event CtxDone s1)
             else BodyBlocks s1)"

text \<open>Lines 292-312: the metrics server, when it is enabled.\<close>

definition Run_metrics ::
  "'prov run_env \<Rightarrow> Config \<Rightarrow> deferred list \<Rightarrow> ('pool, 'cert, 'prov) Server \<Rightarrow>
   ('pool, 'cert, 'prov) Server body" where
  "Run_metrics env cfg ds s =
     (if EnableMetrics cfg then
        (let (err, s1) = startMetricsServer env cfg (wg_Add s) in
         case err of
           Some e \<Rightarrow> BodyReturns (Some (ErrStartMetricsServer e)) ds s1
         | None \<Rightarrow>
             if is_fatal (metricsTask s1) then BodyExits s1
             else Run_watch_and_block env (Defer_metrics_Shutdown # ds) s1)
      else Run_watch_and_block env ds s)"

text \<open>Lines 270-290: the app server.\<close>

definition Run_body ::
  "'prov run_env \<Rightarrow> Config \<Rightarrow> deferred list \<Rightarrow> ('pool, 'cert, 'prov) Server \<Rightarrow>
   ('pool, 'cert, 'prov) Server body" where
  "Run_body env cfg ds s =
     (let (err, s1) = startAppServer env cfg (wg_Add s) in
      case err of
        Some e \<Rightarrow> BodyReturns (Some (ErrStartAppServer e)) ds s1
      | None \<Rightarrow>
          if is_fatal (appTask s1) then BodyExits s1
          else Run_metrics env cfg (Defer_app_Shutdown # ds) s1)"

text \<open>
  What a call of \<open>Run\<close> comes to: it returns an error value (\<open>None\<close> is \<open>nil\<close>), or it never
  returns, or it panics, or the process exits under it; each with the state of the server
  at that point.
\<close>

datatype 's outcome = Returns "error option" 's | NeverReturns 's | Panics 's | ProcessExits 's

definition Run ::
  "'prov run_env \<Rightarrow> Config \<Rightarrow> ('pool, 'cert, 'prov) Server \<Rightarrow> ('pool, 'cert, 'prov) Server outcome" where
  "Run env cfg s =
     (if running s then Returns (Some ErrAlreadyRunning) s
      else
        let s1 = log_event CompareAndSwapRunning (s\<lparr>running := True\<rparr>) in
        case Run_body env cfg [Defer_wg_Wait, Defer_running_Store_false] s1 of
          BodyBlocks s2 \<Rightarrow> NeverReturns s2
        | BodyExits s2 \<Rightarrow> ProcessExits s2
        | BodyReturns r ds s2 \<Rightarrow>
            (case run_deferred env ds s2 of
               Finished s3 \<Rightarrow> Returns r s3
             | BlockedForever s3 \<Rightarrow> NeverReturns s3
             | Panicked s3 \<Rightarrow> Panics s3))"

section \<open>Vocabulary of the stated properties\<close>

text \<open>
  The character classes that the properties speak of, written out as alphabets, so that
  they do not depend on the byte comparisons of the code.
\<close>

definition ascii_lower :: string where "ascii_lower = ''abcdefghijklmnopqrstuvwxyz''"
definition ascii_upper :: string where "ascii_upper = ''ABCDEFGHIJKLMNOPQRSTUVWXYZ''"
definition ascii_digit :: string where "ascii_digit = ''0123456789''"

definition base64url_char :: "char \<Rightarrow> bool" where
  "base64url_char c \<longleftrightarrow>
     c \<in> set ascii_lower \<or> c \<in> set ascii_upper \<or> c \<in> set ascii_digit \<or> c = CHR ''-'' \<or> c = CHR ''_''"

definition hostname_word_char :: "char \<Rightarrow> bool" where
  "hostname_word_char c \<longleftrightarrow>
     c \<in> set ascii_lower \<or> c \<in> set ascii_upper \<or> c = CHR ''_'' \<or> c = CHR ''-''"

text \<open>
  The client-auth stage of \<open>loadTLSConfig\<close> cannot obtain or parse the CA bytes: the inline
  CA PEM is empty and no directory is resolved, or the file cannot be read, or the bytes do
  not parse into the pool.
\<close>

definition ca_fails :: "('pool, 'cert, 'prov) tls_env \<Rightarrow> Config \<Rightarrow> bool" where
  "ca_fails env cfg =
     (let tlsPath = resolve_tlsPath env cfg in
      if TLSCAPEM cfg = [] then
        (if tlsPath = [] then True
         else
           (case os_ReadFile env (filepath_Join env tlsPath (tlsCAFile env)) of
              Inl err \<Rightarrow> True
            | Inr caCert \<Rightarrow> \<not> snd (AppendCertsFromPEM env (NewCertPool env) caCert)))
      else \<not> snd (AppendCertsFromPEM env (NewCertPool env) (TLSCAPEM cfg)))"

text \<open>
  What \<open>Run\<close> appends to the history of the server: the events of a startup in which
  every listener starts, the events of the watch function and of the wait for the
  cancellation, and the events of the deferred calls. \<open>watch_outcome\<close> is what the watch
  function returns (\<open>nil\<close> when there is none). A listener is available when the server
  already holds one or \<open>net.Listen\<close> succeeds on its address; a server serves when a
  listener that the server already holds is still open and \<open>Serve\<close> ends only by
  \<open>Shutdown\<close>, so that its goroutine does not reach \<open>log.Fatal\<close>; a server starts when
  both hold.
\<close>

definition watch_outcome :: "'prov run_env \<Rightarrow> ('pool, 'cert, 'prov) Server \<Rightarrow> error option" where
  "watch_outcome env s =
     (case tlsCertWatchFn s of None \<Rightarrow> None | Some provider \<Rightarrow> watch_result env provider)"

definition startup_trace :: "Config \<Rightarrow> ('pool, 'cert, 'prov) Server \<Rightarrow> event list" where
  "startup_trace cfg s =
     [CompareAndSwapRunning, WgAdd] @
     (if appListener s = None then [Listen (Bind cfg, Port cfg)] else []) @
     [GoServe AppServer] @
     (if EnableMetrics cfg then
        [WgAdd] @
        (if metricsListener s = None then [Listen (MetricsBind cfg, MetricsPort cfg)] else []) @
        [GoServe MetricsServer]
      else [])"

definition wait_trace :: "'prov run_env \<Rightarrow> ('pool, 'cert, 'prov) Server \<Rightarrow> event list" where
  "wait_trace env s =
     (if tlsCertWatchFn s = None then [] else [WatchTLS]) @
     (if watch_outcome env s = None then [CtxDone] else [])"

definition shutdown_warning :: "'prov run_env \<Rightarrow> server_id \<Rightarrow> event list" where
  "shutdown_warning env sid =
     (case srv_Shutdown env sid of None \<Rightarrow> [] | Some err \<Rightarrow> [LogWarn sid err])"

definition shutdown_trace :: "'prov run_env \<Rightarrow> bool \<Rightarrow> event list" where
  "shutdown_trace env with_metrics =
     (if with_metrics then
        [Shutdown MetricsServer 500] @ shutdown_warning env MetricsServer @ [WgDone]
      else []) @
     [Shutdown AppServer 5000] @ shutdown_warning env AppServer @ [WgDone] @
     [WgWait, StoreRunning False]"

definition app_listener_available :: "'prov run_env \<Rightarrow> Config \<Rightarrow> ('pool, 'cert, 'prov) Server \<Rightarrow> bool" where
  "app_listener_available env cfg s \<longleftrightarrow>
     appListener s \<noteq> None \<or> net_Listen env (Bind cfg, Port cfg) = None"

definition metrics_listener_available :: "'prov run_env \<Rightarrow> Config \<Rightarrow> ('pool, 'cert, 'prov) Server \<Rightarrow> bool" where
  "metrics_listener_available env cfg s \<longleftrightarrow>
     metricsListener s \<noteq> None \<or> net_Listen env (MetricsBind cfg, MetricsPort cfg) = None"

definition app_serves :: "'prov run_env \<Rightarrow> ('pool, 'cert, 'prov) Server \<Rightarrow> bool" where
  "app_serves env s \<longleftrightarrow>
     (case appListener s of Some l \<Rightarrow> \<not> l_closed l | None \<Rightarrow> True) \<and>
     Serve_result env AppServer = ErrServerClosed"

definition metrics_serves :: "'prov run_env \<Rightarrow> ('pool, 'cert, 'prov) Server \<Rightarrow> bool" where
  "metrics_serves env s \<longleftrightarrow>
     (case metricsListener s of Some l \<Rightarrow> \<not> l_closed l | None \<Rightarrow> True) \<and>
     Serve_result env MetricsServer = ErrServerClosed"

definition app_starts :: "'prov run_env \<Rightarrow> Config \<Rightarrow> ('pool, 'cert, 'prov) Server \<Rightarrow> bool" where
  "app_starts env cfg s \<longleftrightarrow> app_listener_available env cfg s \<and> app_serves env s"

definition metrics_starts :: "'prov run_env \<Rightarrow> Config \<Rightarrow> ('pool, 'cert, 'prov) Server \<Rightarrow> bool" where
  "metrics_starts env cfg s \<longleftrightarrow> metrics_listener_available env cfg s \<and> metrics_serves env s"

subsection \<open>Concrete environments, configurations and servers\<close>

text \<open>
  An environment in which the CA file exists only under \<open>/etc/tfa\<close>, only the texts
  \<open>CA PEM\<close>, \<open>CERT PEM\<close> and \<open>KEY PEM\<close> parse, and only \<open>/etc/tfa\<close> holds certificate
  files; a configuration with no TLS setting at all (\<open>empty_cfg\<close>, and \<open>sample_cfg\<close>, the
  same with the metrics server enabled); a server as \<open>NewServer\<close> leaves it when TLS is
  off; and a world in which every listener can be bound, every \<open>Serve\<close> ends only by
  \<open>Shutdown\<close>, every serving goroutine has returned when \<open>Shutdown\<close> of its server
  returns, every shutdown is clean and the context is cancelled.
\<close>

definition sample_env :: "(string list, string \<times> string, string) tls_env" where
  "sample_env =
     \<lparr>minTLSVersion = 771,
      tlsCAFile = ''tls-ca.pem'',
      filepath_Dir = (\<lambda>file. ''/etc/tfa''),
      filepath_Join = (\<lambda>dir name. dir @ ''/'' @ name),
      os_ReadFile = (\<lambda>path. if path = ''/etc/tfa/tls-ca.pem'' then Inr ''CA PEM''
                             else Inl (ExternalError ''no such file'')),
      NewCertPool = [],
      AppendCertsFromPEM = (\<lambda>pool pem. if pem = ''CA PEM'' then (pool @ [pem], True)
                                         else (pool, False)),
      X509KeyPair = (\<lambda>cert key. if cert = ''CERT PEM'' \<and> key = ''KEY PEM'' then Inr (cert, key)
                                 else Inl (ExternalError ''bad key pair'')),
      newTLSCertProvider = (\<lambda>path. if path = ''/etc/tfa'' then Inr (Some path) else Inr None)\<rparr>"

definition empty_cfg :: Config where
  "empty_cfg =
     \<lparr>TLSPath = [], LoadedConfigPath = [], TLSClientAuth = False, TLSCAPEM = [],
      TLSCertPEM = [], TLSKeyPEM = [], EnableMetrics = False,
      Bind = ''127.0.0.1'', Port = 4181, MetricsBind = ''127.0.0.1'', MetricsPort = 2112\<rparr>"

definition fresh_server :: "(string list, string \<times> string, string) Server" where
  "fresh_server =
     \<lparr>appSrv = None, metricsSrv = None, tlsCertWatchFn = None, tlsConfig = None,
      running = False, wg = 0, appListener = None, metricsListener = None,
      appTask = None, metricsTask = None, events = []\<rparr>"

definition calm_env :: "string run_env" where
  "calm_env =
     \<lparr>net_Listen = (\<lambda>addr. None),
      Serve_result = (\<lambda>sid. ErrServerClosed),
      progress_at_Shutdown = (\<lambda>sid. GoroutineExited),
      watch_result = (\<lambda>provider. None),
      ctx_cancelled = True,
      srv_Shutdown = (\<lambda>sid. None)\<rparr>"

definition sample_cfg :: Config where
  "sample_cfg =
     \<lparr>TLSPath = [], LoadedConfigPath = [], TLSClientAuth = False, TLSCAPEM = [],
      TLSCertPEM = [], TLSKeyPEM = [], EnableMetrics = True,
      Bind = ''127.0.0.1'', Port = 4181, MetricsBind = ''127.0.0.1'', MetricsPort = 2112\<rparr>"

section \<open>Properties of the validators\<close>

lemma byte_val_literals:
  "byte_val (CHR ''a'') = 97" "byte_val (CHR ''z'') = 122"
  "byte_val (CHR ''A'') = 65" "byte_val (CHR ''Z'') = 90"
  "byte_val (CHR ''0'') = 48" "byte_val (CHR ''9'') = 57"
  by (simp_all add: byte_val_def)

lemma lower_range: "(97 \<le> byte_val c \<and> byte_val c \<le> 122) \<longleftrightarrow> c \<in> set ascii_lower"
proof (cases c)
  case (Char x1 x2 x3 x4 x5 x6 x7 x8)
  show ?thesis
    unfolding byte_val_def ascii_lower_def Char
    by (cases x1; cases x2; cases x3; cases x4; cases x5; cases x6; cases x7; cases x8; simp)
qed

lemma upper_range: "(65 \<le> byte_val c \<and> byte_val c \<le> 90) \<longleftrightarrow> c \<in> set ascii_upper"
proof (cases c)
  case (Char x1 x2 x3 x4 x5 x6 x7 x8)
  show ?thesis
    unfolding byte_val_def ascii_upper_def Char
    by (cases x1; cases x2; cases x3; cases x4; cases x5; cases x6; cases x7; cases x8; simp)
qed

lemma digit_range: "(48 \<le> byte_val c \<and> byte_val c \<le> 57) \<longleftrightarrow> c \<in> set ascii_digit"
proof (cases c)
  case (Char x1 x2 x3 x4 x5 x6 x7 x8)
  show ?thesis
    unfolding byte_val_def ascii_digit_def Char
    by (cases x1; cases x2; cases x3; cases x4; cases x5; cases x6; cases x7; cases x8; simp)
qed

lemma Base64URL_valid_iff: "Base64URL_valid c \<longleftrightarrow> base64url_char c"
  unfolding Base64URL_valid_def base64url_char_def byte_val_literals
  using lower_range [of c] upper_range [of c] digit_range [of c] by blast

lemma Base64URL_loop_eq:
  "expectLen \<le> length val \<Longrightarrow>
   Base64URL_loop val expectLen i = Some (\<forall>j. i \<le> j \<and> j < expectLen \<longrightarrow> Base64URL_valid (val ! j))"
proof (induction val expectLen i rule: Base64URL_loop.induct)
  case (1 val expectLen i)
  show ?case
  proof (cases "i < expectLen")
    case False
    then show ?thesis by (subst Base64URL_loop.simps) auto
  next
    case lt: True
    with "1.prems" have inr: "i < length val" by simp
    show ?thesis
    proof (cases "Base64URL_valid (val ! i)")
      case False
      with lt inr show ?thesis
        by (subst Base64URL_loop.simps) auto
    next
      case True
      have "Base64URL_loop val expectLen i = Base64URL_loop val expectLen (Suc i)"
        using lt inr True by (subst Base64URL_loop.simps) simp
      also have "\<dots> = Some (\<forall>j. Suc i \<le> j \<and> j < expectLen \<longrightarrow> Base64URL_valid (val ! j))"
        using "1.IH" [OF lt inr] True "1.prems" by simp
      also have "(\<forall>j. Suc i \<le> j \<and> j < expectLen \<longrightarrow> Base64URL_valid (val ! j))
                 = (\<forall>j. i \<le> j \<and> j < expectLen \<longrightarrow> Base64URL_valid (val ! j))"
      proof -
        have "\<And>j. i \<le> j \<longleftrightarrow> j = i \<or> Suc i \<le> j" by arith
        with True show ?thesis by auto
      qed
      finally show ?thesis .
    qed
  qed
qed

lemma Base64URL_eq:
  "Base64URL val expectLen = Some (int (length val) = expectLen \<and> (\<forall>c \<in> set val. base64url_char c))"
proof (cases "int (length val) = expectLen")
  case False
  then show ?thesis by (simp add: Base64URL_def)
next
  case True
  then have n: "nat expectLen = length val" by auto
  have "Base64URL val expectLen = Base64URL_loop val (length val) 0"
    using True n by (simp add: Base64URL_def)
  also have "\<dots> = Some (\<forall>j. 0 \<le> j \<and> j < length val \<longrightarrow> Base64URL_valid (val ! j))"
    by (rule Base64URL_loop_eq) simp
  also have "(\<forall>j. 0 \<le> j \<and> j < length val \<longrightarrow> Base64URL_valid (val ! j)) = (\<forall>c \<in> set val. base64url_char c)"
    by (simp add: all_set_conv_all_nth Base64URL_valid_iff)
  finally show ?thesis using True by simp
qed

text \<open>
  C9: for every string \<open>s\<close>, \<open>ItemID s\<close> is \<open>Base64URL s 21\<close>; it never panics, and it is
  true exactly when \<open>s\<close> has 21 bytes and each of them is an ASCII lower-case letter, an
  upper-case letter, a digit, \<open>-\<close> or \<open>_\<close>. Every string of another length is rejected.
\<close>

theorem ItemID_characterised:
  "ItemID s = Base64URL s 21 \<and>
   ItemID s = Some (length s = 21 \<and> (\<forall>c \<in> set s. base64url_char c)) \<and>
   (length s \<noteq> 21 \<longrightarrow> ItemID s = Some False)"
  unfolding ItemID_def using Base64URL_eq [of s 21] by auto

theorem ItemID_characterised_witness:
  "ItemID ''V1StGXR8_Z5jdHi6B-myT'' = Some True \<and>
   length ''V1StGXR8_Z5jdHi6B-myT'' = 21 \<and>
   list_all base64url_char ''V1StGXR8_Z5jdHi6B-myT'' \<and>
   length ''abc'' \<noteq> 21 \<and> ItemID ''abc'' = Some False \<and>
   length ''V1StGXR8+Z5jdHi6B/myT'' = 21 \<and> ItemID ''V1StGXR8+Z5jdHi6B/myT'' = Some False"
  using ItemID_characterised [of "''V1StGXR8_Z5jdHi6B-myT''", THEN conjunct2]
    ItemID_characterised [of "''abc''", THEN conjunct2]
    ItemID_characterised [of "''V1StGXR8+Z5jdHi6B/myT''", THEN conjunct2]
  by (simp add: base64url_char_def ascii_lower_def ascii_upper_def ascii_digit_def)

lemma IsHostname_step_nonNumeric:
  "\<not> hostname_word_char c \<Longrightarrow> IsHostname_step st c = Some st' \<Longrightarrow> nonNumeric st' = nonNumeric st"
  unfolding IsHostname_step_def hostname_word_char_def byte_val_literals
  using lower_range [of c] upper_range [of c]
  by (auto split: if_splits)

lemma IsHostname_loop_nonNumeric:
  "\<forall>c \<in> set cs. \<not> hostname_word_char c \<Longrightarrow> IsHostname_loop st cs = Some st' \<Longrightarrow>
   nonNumeric st' = nonNumeric st"
proof (induction cs arbitrary: st)
  case Nil
  then show ?case by simp
next
  case (Cons c cs)
  from Cons.prems(2) obtain st1 where s1: "IsHostname_step st c = Some st1"
    and l1: "IsHostname_loop st1 cs = Some st'"
    by (auto split: option.splits)
  have "nonNumeric st1 = nonNumeric st"
    using IsHostname_step_nonNumeric [OF _ s1] Cons.prems(1) by simp
  moreover have "nonNumeric st' = nonNumeric st1"
    using Cons.IH [OF _ l1] Cons.prems(1) by simp
  ultimately show ?case by simp
qed

text \<open>
  C10: a string with no ASCII letter, no underscore and no hyphen is never a hostname,
  except the root domain \<open>.\<close>, which is one.
\<close>

theorem IsHostname_numeric_only:
  assumes "\<forall>c \<in> set s. \<not> hostname_word_char c"
  shows "IsHostname s = (s = ''.'')"
proof (cases "s = ''.''")
  case True
  then show ?thesis by (simp add: IsHostname_def)
next
  case False
  have "\<not> IsHostname s"
  proof
    assume h: "IsHostname s"
    then obtain st where l: "IsHostname_loop \<lparr>last_byte = CHR ''.'', nonNumeric = False, partlen = 0\<rparr> s = Some st"
      and nn: "nonNumeric st"
      using False unfolding IsHostname_def Let_def
      by (auto split: if_splits option.splits)
    from IsHostname_loop_nonNumeric [OF assms l] nn show False by simp
  qed
  with False show ?thesis by simp
qed

theorem IsHostname_numeric_only_witness:
  "list_all (\<lambda>c. \<not> hostname_word_char c) ''127.0.0.1'' \<and> \<not> IsHostname ''127.0.0.1'' \<and>
   list_all (\<lambda>c. \<not> hostname_word_char c) [] \<and> \<not> IsHostname [] \<and>
   list_all (\<lambda>c. \<not> hostname_word_char c) ''.'' \<and> IsHostname ''.''"
proof -
  have a: "\<forall>c \<in> set ''127.0.0.1''. \<not> hostname_word_char c"
    by (simp add: hostname_word_char_def ascii_lower_def ascii_upper_def)
  have b: "\<forall>c \<in> set []. \<not> hostname_word_char c" by simp
  have c: "\<forall>c \<in> set ''.''. \<not> hostname_word_char c"
    by (simp add: hostname_word_char_def ascii_lower_def ascii_upper_def)
  show ?thesis
    using a b c IsHostname_numeric_only [OF a] IsHostname_numeric_only [OF b]
      IsHostname_numeric_only [OF c]
    by (simp add: list_all_iff)
qed

section \<open>Properties of loadTLSConfig\<close>

lemmas tls_defs = loadTLSConfig_def load_serverCert_def enable_clientAuth_def load_caCert_def
  resolve_tlsPath_def Let_def

lemma resolve_tlsPath_empty:
  "TLSPath cfg = [] \<Longrightarrow> LoadedConfigPath cfg = [] \<Longrightarrow> resolve_tlsPath env cfg = []"
  by (simp add: resolve_tlsPath_def)

lemma enable_clientAuth_Inl_iff:
  "(\<exists>err. enable_clientAuth env cfg (resolve_tlsPath env cfg) tc = Inl err) \<longleftrightarrow> ca_fails env cfg"
  unfolding enable_clientAuth_def load_caCert_def ca_fails_def Let_def
  by (auto split: sum.splits prod.splits if_splits)

lemma loadTLSConfig_ca_error:
  assumes "TLSClientAuth cfg" and "ca_fails env cfg"
  shows "\<exists>err. loadTLSConfig env cfg = (None, None, Some err)"
proof -
  let ?tc = "\<lparr>MinVersion = minTLSVersion env, ClientAuth = NoClientCert,
              ClientCAs = None, Certificates = [], GetCertificate = None\<rparr>"
  from assms(2) obtain err where "enable_clientAuth env cfg (resolve_tlsPath env cfg) ?tc = Inl err"
    using enable_clientAuth_Inl_iff [of env cfg ?tc] by blast
  with assms(1) show ?thesis by (simp add: loadTLSConfig_def)
qed

lemma loadTLSConfig_ca_ok:
  assumes "\<not> (TLSClientAuth cfg \<and> ca_fails env cfg)"
  shows "\<exists>tc. loadTLSConfig env cfg = load_serverCert env cfg (resolve_tlsPath env cfg) tc \<and>
              Certificates tc = [] \<and> GetCertificate tc = None"
proof (cases "TLSClientAuth cfg")
  case False
  let ?tc = "\<lparr>MinVersion = minTLSVersion env, ClientAuth = NoClientCert,
              ClientCAs = None, Certificates = [], GetCertificate = None\<rparr>"
  from False have "loadTLSConfig env cfg = load_serverCert env cfg (resolve_tlsPath env cfg) ?tc"
    by (simp add: loadTLSConfig_def)
  moreover have "Certificates ?tc = [] \<and> GetCertificate ?tc = None" by simp
  ultimately show ?thesis by blast
next
  case True
  let ?tc = "\<lparr>MinVersion = minTLSVersion env, ClientAuth = NoClientCert,
              ClientCAs = None, Certificates = [], GetCertificate = None\<rparr>"
  from True assms have "\<not> ca_fails env cfg" by simp
  then obtain tc' where ok: "enable_clientAuth env cfg (resolve_tlsPath env cfg) ?tc = Inr tc'"
    using enable_clientAuth_Inl_iff [of env cfg ?tc]
    by (cases "enable_clientAuth env cfg (resolve_tlsPath env cfg) ?tc") auto
  then have "Certificates tc' = [] \<and> GetCertificate tc' = None"
    unfolding enable_clientAuth_def by (auto split: sum.splits prod.splits if_splits)
  moreover from True ok
  have "loadTLSConfig env cfg = load_serverCert env cfg (resolve_tlsPath env cfg) tc'"
    by (simp add: loadTLSConfig_def)
  ultimately show ?thesis by blast
qed

text \<open>
  C1 as stated does not hold: with an inline certificate and no inline key (client-auth
  off) \<open>loadTLSConfig\<close> returns three nils, so TLS is switched off and no error is
  reported.
\<close>

theorem loadTLSConfig_partial_pair_no_error:
  "(TLSCertPEM (empty_cfg\<lparr>TLSCertPEM := ''CERT PEM''\<rparr>) = []) \<noteq>
     (TLSKeyPEM (empty_cfg\<lparr>TLSCertPEM := ''CERT PEM''\<rparr>) = []) \<and>
   loadTLSConfig sample_env (empty_cfg\<lparr>TLSCertPEM := ''CERT PEM''\<rparr>) = (None, None, None)"
  by (simp add: tls_defs sample_env_def empty_cfg_def)

text \<open>
  C1, amended: when exactly one of the inline certificate PEM and the inline key PEM is
  non-empty, \<open>loadTLSConfig\<close> returns \<open>(nil, nil, nil)\<close>, TLS disabled and no error; the only
  error it returns in such a configuration is the one of the client-auth stage, when
  client-auth is requested and the CA bytes cannot be obtained or parsed.
\<close>

theorem loadTLSConfig_partial_pair:
  assumes "(TLSCertPEM cfg = []) \<noteq> (TLSKeyPEM cfg = [])"
  shows "if TLSClientAuth cfg \<and> ca_fails env cfg
         then \<exists>err. loadTLSConfig env cfg = (None, None, Some err)
         else loadTLSConfig env cfg = (None, None, None)"
proof (cases "TLSClientAuth cfg \<and> ca_fails env cfg")
  case True
  then show ?thesis using loadTLSConfig_ca_error [of cfg env] by simp
next
  case False
  then obtain tc where "loadTLSConfig env cfg = load_serverCert env cfg (resolve_tlsPath env cfg) tc"
    using loadTLSConfig_ca_ok [of cfg env] by blast
  moreover have "load_serverCert env cfg (resolve_tlsPath env cfg) tc = (None, None, None)"
    using assms by (auto simp: load_serverCert_def)
  ultimately show ?thesis using False by simp
qed

theorem loadTLSConfig_partial_pair_witness:
  "(TLSCertPEM (empty_cfg\<lparr>TLSKeyPEM := ''KEY PEM''\<rparr>) = []) \<noteq>
     (TLSKeyPEM (empty_cfg\<lparr>TLSKeyPEM := ''KEY PEM''\<rparr>) = []) \<and>
   \<not> TLSClientAuth (empty_cfg\<lparr>TLSKeyPEM := ''KEY PEM''\<rparr>) \<and>
   loadTLSConfig sample_env (empty_cfg\<lparr>TLSKeyPEM := ''KEY PEM''\<rparr>) = (None, None, None) \<and>
   (TLSCertPEM (empty_cfg\<lparr>TLSCertPEM := ''CERT PEM'', TLSClientAuth := True\<rparr>) = []) \<noteq>
     (TLSKeyPEM (empty_cfg\<lparr>TLSCertPEM := ''CERT PEM'', TLSClientAuth := True\<rparr>) = []) \<and>
   ca_fails sample_env (empty_cfg\<lparr>TLSCertPEM := ''CERT PEM'', TLSClientAuth := True\<rparr>) \<and>
   (\<exists>err. loadTLSConfig sample_env (empty_cfg\<lparr>TLSCertPEM := ''CERT PEM'', TLSClientAuth := True\<rparr>)
            = (None, None, Some err))"
proof -
  let ?a = "empty_cfg\<lparr>TLSKeyPEM := ''KEY PEM''\<rparr>"
  let ?b = "empty_cfg\<lparr>TLSCertPEM := ''CERT PEM'', TLSClientAuth := True\<rparr>"
  have a: "(TLSCertPEM ?a = []) \<noteq> (TLSKeyPEM ?a = [])" by (simp add: empty_cfg_def)
  have a': "\<not> TLSClientAuth ?a" by (simp add: empty_cfg_def)
  have b: "(TLSCertPEM ?b = []) \<noteq> (TLSKeyPEM ?b = [])" by (simp add: empty_cfg_def)
  have b': "TLSClientAuth ?b \<and> ca_fails sample_env ?b"
    by (simp add: empty_cfg_def ca_fails_def resolve_tlsPath_def sample_env_def)
  show ?thesis
    using a a' b b' loadTLSConfig_partial_pair [OF a, of sample_env]
      loadTLSConfig_partial_pair [OF b, of sample_env]
    by simp
qed

text \<open>
  C3 as stated does not hold: with no inline certificate, no inline key and no directory,
  but client-auth requested and no inline CA, \<open>loadTLSConfig\<close> returns the error that no CA
  certificate can be found.
\<close>

theorem loadTLSConfig_no_material_clientAuth_error:
  "TLSCertPEM (empty_cfg\<lparr>TLSClientAuth := True\<rparr>) = [] \<and>
   TLSKeyPEM (empty_cfg\<lparr>TLSClientAuth := True\<rparr>) = [] \<and>
   TLSPath (empty_cfg\<lparr>TLSClientAuth := True\<rparr>) = [] \<and>
   LoadedConfigPath (empty_cfg\<lparr>TLSClientAuth := True\<rparr>) = [] \<and>
   loadTLSConfig sample_env (empty_cfg\<lparr>TLSClientAuth := True\<rparr>) = (None, None, Some ErrNoCAPath)"
  by (simp add: tls_defs sample_env_def empty_cfg_def)

text \<open>
  C3, amended: when the inline certificate PEM and the inline key PEM are both empty, no
  TLS directory is resolvable (no \<open>tlsPath\<close> option and no loaded config file), and
  client-auth is either not requested or requested with an inline CA PEM that parses,
  \<open>loadTLSConfig\<close> returns \<open>(nil, nil, nil)\<close>: TLS is disabled without an error.
\<close>

theorem loadTLSConfig_no_material:
  assumes "TLSCertPEM cfg = []" and "TLSKeyPEM cfg = []"
    and "TLSPath cfg = []" and "LoadedConfigPath cfg = []"
    and "\<not> TLSClientAuth cfg \<or>
         (TLSCAPEM cfg \<noteq> [] \<and> snd (AppendCertsFromPEM env (NewCertPool env) (TLSCAPEM cfg)))"
  shows "loadTLSConfig env cfg = (None, None, None)"
proof -
  have p: "resolve_tlsPath env cfg = []"
    using assms(3,4) by (rule resolve_tlsPath_empty)
  have "\<not> (TLSClientAuth cfg \<and> ca_fails env cfg)"
    using assms(5) by (auto simp: ca_fails_def)
  then obtain tc where "loadTLSConfig env cfg = load_serverCert env cfg (resolve_tlsPath env cfg) tc"
    using loadTLSConfig_ca_ok [of cfg env] by blast
  then show ?thesis using assms(1,2) p by (simp add: load_serverCert_def)
qed

theorem loadTLSConfig_no_material_witness:
  "TLSCertPEM empty_cfg = [] \<and> TLSKeyPEM empty_cfg = [] \<and> TLSPath empty_cfg = [] \<and>
   LoadedConfigPath empty_cfg = [] \<and> \<not> TLSClientAuth empty_cfg \<and>
   loadTLSConfig sample_env empty_cfg = (None, None, None) \<and>
   TLSClientAuth (empty_cfg\<lparr>TLSClientAuth := True, TLSCAPEM := ''CA PEM''\<rparr>) \<and>
   loadTLSConfig sample_env (empty_cfg\<lparr>TLSClientAuth := True, TLSCAPEM := ''CA PEM''\<rparr>)
     = (None, None, None)"
proof -
  let ?b = "empty_cfg\<lparr>TLSClientAuth := True, TLSCAPEM := ''CA PEM''\<rparr>"
  have a: "TLSCertPEM empty_cfg = []" "TLSKeyPEM empty_cfg = []" "TLSPath empty_cfg = []"
    "LoadedConfigPath empty_cfg = []" "\<not> TLSClientAuth empty_cfg"
    by (simp_all add: empty_cfg_def)
  have b: "TLSCertPEM ?b = []" "TLSKeyPEM ?b = []" "TLSPath ?b = []" "LoadedConfigPath ?b = []"
    "TLSClientAuth ?b"
    "TLSCAPEM ?b \<noteq> [] \<and> snd (AppendCertsFromPEM sample_env (NewCertPool sample_env) (TLSCAPEM ?b))"
    by (simp_all add: empty_cfg_def sample_env_def)
  show ?thesis
    using a b loadTLSConfig_no_material [of empty_cfg sample_env]
      loadTLSConfig_no_material [of ?b sample_env]
    by simp
qed


text \<open>
  C4: when client-auth is requested, \<open>loadTLSConfig\<close> returns an error (and neither a
  configuration nor a watch function) whenever the CA bytes cannot be obtained or parsed:
  the inline CA PEM is empty and no TLS directory is resolvable; or reading the CA file
  from the resolved directory fails; or the bytes obtained do not parse into the pool.
\<close>

theorem loadTLSConfig_clientAuth_ca_error:
  assumes "TLSClientAuth cfg"
  shows "(TLSCAPEM cfg = [] \<and> TLSPath cfg = [] \<and> LoadedConfigPath cfg = [] \<longrightarrow>
            loadTLSConfig env cfg = (None, None, Some ErrNoCAPath)) \<and>
         (\<forall>err. TLSCAPEM cfg = [] \<and> resolve_tlsPath env cfg \<noteq> [] \<and>
                os_ReadFile env (filepath_Join env (resolve_tlsPath env cfg) (tlsCAFile env)) = Inl err \<longrightarrow>
            loadTLSConfig env cfg =
              (None, None, Some (ErrLoadCAFile (resolve_tlsPath env cfg) err))) \<and>
         (\<forall>caCert. load_caCert env cfg (resolve_tlsPath env cfg) = Inr caCert \<and>
                   \<not> snd (AppendCertsFromPEM env (NewCertPool env) caCert) \<longrightarrow>
            loadTLSConfig env cfg = (None, None, Some (ErrImportCA (resolve_tlsPath env cfg))))"
proof (intro conjI allI impI)
  assume "TLSCAPEM cfg = [] \<and> TLSPath cfg = [] \<and> LoadedConfigPath cfg = []"
  then show "loadTLSConfig env cfg = (None, None, Some ErrNoCAPath)"
    using assms
    by (simp add: loadTLSConfig_def enable_clientAuth_def load_caCert_def resolve_tlsPath_def)
next
  fix err
  assume "TLSCAPEM cfg = [] \<and> resolve_tlsPath env cfg \<noteq> [] \<and>
          os_ReadFile env (filepath_Join env (resolve_tlsPath env cfg) (tlsCAFile env)) = Inl err"
  then show "loadTLSConfig env cfg = (None, None, Some (ErrLoadCAFile (resolve_tlsPath env cfg) err))"
    using assms
    by (simp add: loadTLSConfig_def enable_clientAuth_def load_caCert_def)
next
  fix caCert
  assume "load_caCert env cfg (resolve_tlsPath env cfg) = Inr caCert \<and>
          \<not> snd (AppendCertsFromPEM env (NewCertPool env) caCert)"
  then show "loadTLSConfig env cfg = (None, None, Some (ErrImportCA (resolve_tlsPath env cfg)))"
    using assms
    by (auto simp: loadTLSConfig_def enable_clientAuth_def Let_def split: prod.splits)
qed

theorem loadTLSConfig_clientAuth_ca_error_witness:
  "TLSClientAuth (empty_cfg\<lparr>TLSClientAuth := True\<rparr>) \<and>
   loadTLSConfig sample_env (empty_cfg\<lparr>TLSClientAuth := True\<rparr>) = (None, None, Some ErrNoCAPath) \<and>
   loadTLSConfig sample_env (empty_cfg\<lparr>TLSClientAuth := True, TLSPath := ''/srv/tls''\<rparr>) =
     (None, None, Some (ErrLoadCAFile ''/srv/tls'' (ExternalError ''no such file''))) \<and>
   loadTLSConfig sample_env (empty_cfg\<lparr>TLSClientAuth := True, TLSCAPEM := ''garbage''\<rparr>) =
     (None, None, Some (ErrImportCA []))"
proof -
  let ?a = "empty_cfg\<lparr>TLSClientAuth := True\<rparr>"
  let ?b = "empty_cfg\<lparr>TLSClientAuth := True, TLSPath := ''/srv/tls''\<rparr>"
  let ?c = "empty_cfg\<lparr>TLSClientAuth := True, TLSCAPEM := ''garbage''\<rparr>"
  have a: "TLSClientAuth ?a" and a1: "TLSCAPEM ?a = [] \<and> TLSPath ?a = [] \<and> LoadedConfigPath ?a = []"
    by (simp_all add: empty_cfg_def)
  have b: "TLSClientAuth ?b" and bp: "resolve_tlsPath sample_env ?b = ''/srv/tls''"
    by (simp_all add: empty_cfg_def resolve_tlsPath_def)
  have b1: "TLSCAPEM ?b = [] \<and> resolve_tlsPath sample_env ?b \<noteq> [] \<and>
            os_ReadFile sample_env (filepath_Join sample_env (resolve_tlsPath sample_env ?b)
              (tlsCAFile sample_env)) = Inl (ExternalError ''no such file'')"
    unfolding bp by (simp add: empty_cfg_def sample_env_def)
  have c: "TLSClientAuth ?c" and cp: "resolve_tlsPath sample_env ?c = []"
    by (simp_all add: empty_cfg_def resolve_tlsPath_def)
  have c1: "load_caCert sample_env ?c (resolve_tlsPath sample_env ?c) = Inr ''garbage'' \<and>
            \<not> snd (AppendCertsFromPEM sample_env (NewCertPool sample_env) ''garbage'')"
    unfolding cp by (simp add: empty_cfg_def sample_env_def load_caCert_def)
  from loadTLSConfig_clientAuth_ca_error [OF a, of sample_env] a1
  have ra: "loadTLSConfig sample_env ?a = (None, None, Some ErrNoCAPath)" by blast
  from loadTLSConfig_clientAuth_ca_error [OF b, of sample_env] b1
  have rb: "loadTLSConfig sample_env ?b =
            (None, None, Some (ErrLoadCAFile (resolve_tlsPath sample_env ?b) (ExternalError ''no such file'')))"
    by blast
  from loadTLSConfig_clientAuth_ca_error [OF c, of sample_env] c1
  have rc: "loadTLSConfig sample_env ?c = (None, None, Some (ErrImportCA (resolve_tlsPath sample_env ?c)))"
    by blast
  from a ra rb rc show ?thesis unfolding bp cp by simp
qed

text \<open>
  C5 as stated does not hold: with client-auth requested and an inline CA that parses, but
  no inline certificate, no inline key and no directory, \<open>loadTLSConfig\<close> succeeds and
  returns a nil configuration (line 491): there is no \<open>ClientAuth\<close> mode and no CA pool in
  what it returns. Lines 502 and 517 return the same.
\<close>

theorem loadTLSConfig_clientAuth_nil_config:
  "TLSClientAuth (empty_cfg\<lparr>TLSClientAuth := True, TLSCAPEM := ''CA PEM''\<rparr>) \<and>
   snd (AppendCertsFromPEM sample_env (NewCertPool sample_env) ''CA PEM'') \<and>
   loadTLSConfig sample_env (empty_cfg\<lparr>TLSClientAuth := True, TLSCAPEM := ''CA PEM''\<rparr>) =
     (None, None, None)"
  by (simp add: tls_defs sample_env_def empty_cfg_def)

text \<open>
  C5, amended: whenever \<open>loadTLSConfig\<close> succeeds with client-auth requested and returns
  a TLS configuration that is not nil, its \<open>ClientAuth\<close> is \<open>VerifyClientCertIfGiven\<close>,
  never \<open>RequireAndVerifyClientCert\<close>, and its \<open>ClientCAs\<close> is the pool built from the CA
  bytes.
\<close>

theorem loadTLSConfig_clientAuth_mode:
  assumes "TLSClientAuth cfg"
    and "loadTLSConfig env cfg = (Some conf, watch, None)"
  shows "ClientAuth conf = VerifyClientCertIfGiven \<and>
         ClientAuth conf \<noteq> RequireAndVerifyClientCert \<and>
         (\<exists>caCert. load_caCert env cfg (resolve_tlsPath env cfg) = Inr caCert \<and>
                   snd (AppendCertsFromPEM env (NewCertPool env) caCert) \<and>
                   ClientCAs conf = Some (fst (AppendCertsFromPEM env (NewCertPool env) caCert)))"
proof -
  let ?tc = "\<lparr>MinVersion = minTLSVersion env, ClientAuth = NoClientCert,
              ClientCAs = None, Certificates = [], GetCertificate = None\<rparr>"
  let ?p = "resolve_tlsPath env cfg"
  from assms obtain tc' where en: "enable_clientAuth env cfg ?p ?tc = Inr tc'"
    and ld: "load_serverCert env cfg ?p tc' = (Some conf, watch, None)"
    by (auto simp: loadTLSConfig_def Let_def split: sum.splits)
  from en obtain caCert where ca: "load_caCert env cfg ?p = Inr caCert"
    and ok: "snd (AppendCertsFromPEM env (NewCertPool env) caCert)"
    and tc': "tc' = ?tc\<lparr>ClientAuth := VerifyClientCertIfGiven,
                         ClientCAs := Some (fst (AppendCertsFromPEM env (NewCertPool env) caCert))\<rparr>"
    by (auto simp: enable_clientAuth_def split: sum.splits prod.splits if_splits)
  from ld have "ClientAuth conf = ClientAuth tc' \<and> ClientCAs conf = ClientCAs tc'"
    by (auto simp: load_serverCert_def Let_def split: if_splits sum.splits option.splits)
  with tc' ca ok show ?thesis by auto
qed

theorem loadTLSConfig_clientAuth_mode_witness:
  "TLSClientAuth (empty_cfg\<lparr>TLSClientAuth := True, LoadedConfigPath := ''/etc/tfa/config.yaml''\<rparr>) \<and>
   loadTLSConfig sample_env
     (empty_cfg\<lparr>TLSClientAuth := True, LoadedConfigPath := ''/etc/tfa/config.yaml''\<rparr>) =
     (Some \<lparr>MinVersion = 771, ClientAuth = VerifyClientCertIfGiven, ClientCAs = Some [''CA PEM''],
            Certificates = [], GetCertificate = Some ''/etc/tfa''\<rparr>, Some ''/etc/tfa'', None) \<and>
   ClientAuth \<lparr>MinVersion = 771, ClientAuth = VerifyClientCertIfGiven, ClientCAs = Some [''CA PEM''],
            Certificates = [] :: (string \<times> string) list, GetCertificate = Some ''/etc/tfa''\<rparr>
     = VerifyClientCertIfGiven"
proof -
  let ?c = "empty_cfg\<lparr>TLSClientAuth := True, LoadedConfigPath := ''/etc/tfa/config.yaml''\<rparr>"
  let ?tc = "\<lparr>MinVersion = 771, ClientAuth = VerifyClientCertIfGiven,
              ClientCAs = Some [''CA PEM''], Certificates = [] :: (string \<times> string) list,
              GetCertificate = Some ''/etc/tfa''\<rparr>"
  have c: "TLSClientAuth ?c" by (simp add: empty_cfg_def)
  have r: "loadTLSConfig sample_env ?c = (Some ?tc, Some ''/etc/tfa'', None)"
    by (simp add: tls_defs sample_env_def empty_cfg_def)
  from loadTLSConfig_clientAuth_mode [OF c r] c r show ?thesis by simp
qed

text \<open>
  C6 as stated does not hold: with a valid inline pair, client-auth requested, no inline CA
  and no directory, \<open>loadTLSConfig\<close> returns the CA error and no configuration.
\<close>

theorem loadTLSConfig_inline_pair_clientAuth_error:
  "TLSCertPEM (empty_cfg\<lparr>TLSClientAuth := True, TLSCertPEM := ''CERT PEM'', TLSKeyPEM := ''KEY PEM''\<rparr>) \<noteq> [] \<and>
   TLSKeyPEM (empty_cfg\<lparr>TLSClientAuth := True, TLSCertPEM := ''CERT PEM'', TLSKeyPEM := ''KEY PEM''\<rparr>) \<noteq> [] \<and>
   X509KeyPair sample_env ''CERT PEM'' ''KEY PEM'' = Inr (''CERT PEM'', ''KEY PEM'') \<and>
   loadTLSConfig sample_env
     (empty_cfg\<lparr>TLSClientAuth := True, TLSCertPEM := ''CERT PEM'', TLSKeyPEM := ''KEY PEM''\<rparr>) =
     (None, None, Some ErrNoCAPath)"
  by (simp add: tls_defs sample_env_def empty_cfg_def)

text \<open>
  C6, amended: when the inline certificate PEM and the inline key PEM are both present
  and form a valid pair, and the client-auth stage does not fail (client-auth is not
  requested, or the CA bytes are obtained and parse), \<open>loadTLSConfig\<close> returns a TLS
  configuration whose \<open>Certificates\<close> is exactly the parsed pair, with no
  \<open>GetCertificate\<close> callback, and a nil watch function.
\<close>

theorem loadTLSConfig_inline_pair:
  assumes "TLSCertPEM cfg \<noteq> []" and "TLSKeyPEM cfg \<noteq> []"
    and "X509KeyPair env (TLSCertPEM cfg) (TLSKeyPEM cfg) = Inr cert"
    and "\<not> (TLSClientAuth cfg \<and> ca_fails env cfg)"
  shows "\<exists>conf. loadTLSConfig env cfg = (Some conf, None, None) \<and>
                     Certificates conf = [cert] \<and> Certificates conf \<noteq> [] \<and>
                     GetCertificate conf = None"
proof -
  from assms(4) obtain tc where
    l: "loadTLSConfig env cfg = load_serverCert env cfg (resolve_tlsPath env cfg) tc"
    and g: "GetCertificate tc = None"
    using loadTLSConfig_ca_ok [of cfg env] by blast
  have "load_serverCert env cfg (resolve_tlsPath env cfg) tc =
        (Some (tc\<lparr>Certificates := [cert]\<rparr>), None, None)"
    using assms(1-3) by (simp add: load_serverCert_def)
  with l g show ?thesis by simp
qed

theorem loadTLSConfig_inline_pair_witness:
  "TLSCertPEM (empty_cfg\<lparr>TLSCertPEM := ''CERT PEM'', TLSKeyPEM := ''KEY PEM''\<rparr>) \<noteq> [] \<and>
   TLSKeyPEM (empty_cfg\<lparr>TLSCertPEM := ''CERT PEM'', TLSKeyPEM := ''KEY PEM''\<rparr>) \<noteq> [] \<and>
   (\<exists>conf.
      loadTLSConfig sample_env (empty_cfg\<lparr>TLSCertPEM := ''CERT PEM'', TLSKeyPEM := ''KEY PEM''\<rparr>) =
        (Some conf, None, None) \<and>
      Certificates conf = [(''CERT PEM'', ''KEY PEM'')])"
proof -
  let ?c = "empty_cfg\<lparr>TLSCertPEM := ''CERT PEM'', TLSKeyPEM := ''KEY PEM''\<rparr>"
  have a: "TLSCertPEM ?c \<noteq> []" and b: "TLSKeyPEM ?c \<noteq> []"
    and k: "X509KeyPair sample_env (TLSCertPEM ?c) (TLSKeyPEM ?c) = Inr (''CERT PEM'', ''KEY PEM'')"
    and n: "\<not> (TLSClientAuth ?c \<and> ca_fails sample_env ?c)"
    by (simp_all add: empty_cfg_def sample_env_def)
  from loadTLSConfig_inline_pair [OF a b k n] a b show ?thesis by blast
qed

section \<open>Properties of Run\<close>

lemma is_fatal_serving_goroutine:
  "is_fatal (Some (serving_goroutine env sid l)) \<longleftrightarrow>
   l_closed l \<or> Serve_result env sid \<noteq> ErrServerClosed"
  by (simp add: serving_goroutine_def Let_def)

lemma startAppServer_ok:
  assumes "app_listener_available env cfg s"
  shows "\<exists>s'. startAppServer env cfg s = (None, s') \<and> appSrv s' \<noteq> None \<and>
              is_fatal (appTask s') = (\<not> app_serves env s) \<and>
              metricsSrv s' = metricsSrv s \<and> metricsListener s' = metricsListener s \<and>
              tlsCertWatchFn s' = tlsCertWatchFn s \<and> running s' = running s \<and> wg s' = wg s \<and>
              events s' = events s @
                (if appListener s = None then [Listen (Bind cfg, Port cfg)] else []) @
                [GoServe AppServer]"
proof (cases "appListener s")
  case None
  with assms have "net_Listen env (Bind cfg, Port cfg) = None"
    by (simp add: app_listener_available_def)
  with None show ?thesis
    by (simp add: startAppServer_def log_event_def Let_def app_serves_def
        is_fatal_serving_goroutine del: is_fatal.simps)
next
  case (Some l)
  then show ?thesis
    by (simp add: startAppServer_def log_event_def Let_def app_serves_def
        is_fatal_serving_goroutine del: is_fatal.simps)
qed

lemma startMetricsServer_ok:
  assumes "metrics_listener_available env cfg s"
  shows "\<exists>s'. startMetricsServer env cfg s = (None, s') \<and> metricsSrv s' \<noteq> None \<and>
              is_fatal (metricsTask s') = (\<not> metrics_serves env s) \<and>
              appSrv s' = appSrv s \<and>
              tlsCertWatchFn s' = tlsCertWatchFn s \<and> running s' = running s \<and> wg s' = wg s \<and>
              events s' = events s @
                (if metricsListener s = None then [Listen (MetricsBind cfg, MetricsPort cfg)] else []) @
                [GoServe MetricsServer]"
proof (cases "metricsListener s")
  case None
  with assms have "net_Listen env (MetricsBind cfg, MetricsPort cfg) = None"
    by (simp add: metrics_listener_available_def)
  with None show ?thesis
    by (simp add: startMetricsServer_def log_event_def Let_def metrics_serves_def
        is_fatal_serving_goroutine del: is_fatal.simps)
next
  case (Some l)
  then show ?thesis
    by (simp add: startMetricsServer_def log_event_def Let_def metrics_serves_def
        is_fatal_serving_goroutine del: is_fatal.simps)
qed

lemma startAppServer_fails:
  assumes "\<not> app_listener_available env cfg s"
  shows "\<exists>err s'. startAppServer env cfg s = (Some (ErrCreateListener err), s') \<and>
              net_Listen env (Bind cfg, Port cfg) = Some err \<and>
              running s' = running s \<and> wg s' = wg s \<and>
              events s' = events s @ [Listen (Bind cfg, Port cfg)]"
  using assms
  by (auto simp: startAppServer_def app_listener_available_def log_event_def Let_def)

lemma startMetricsServer_fails:
  assumes "\<not> metrics_listener_available env cfg s"
  shows "\<exists>err s'. startMetricsServer env cfg s = (Some (ErrCreateListener err), s') \<and>
              net_Listen env (MetricsBind cfg, MetricsPort cfg) = Some err \<and>
              appSrv s' = appSrv s \<and>
              running s' = running s \<and> wg s' = wg s \<and>
              events s' = events s @ [Listen (MetricsBind cfg, MetricsPort cfg)]"
  using assms
  by (auto simp: startMetricsServer_def metrics_listener_available_def log_event_def Let_def)

lemma after_Shutdown_fields:
  "appSrv (after_Shutdown env sid s) = appSrv s"
  "metricsSrv (after_Shutdown env sid s) = metricsSrv s"
  "running (after_Shutdown env sid s) = running s"
  "wg (after_Shutdown env sid s) = wg s"
  "events (after_Shutdown env sid s) = events s"
  by (cases sid; cases "progress_at_Shutdown env sid"; simp add: after_Shutdown_def)+

lemma Run_watch_and_block_returns:
  assumes "watch_outcome env s = None \<longrightarrow> ctx_cancelled env"
  shows "\<exists>s'. Run_watch_and_block env ds s =
                BodyReturns (map_option ErrWatchTLS (watch_outcome env s)) ds s' \<and>
              appSrv s' = appSrv s \<and> metricsSrv s' = metricsSrv s \<and>
              running s' = running s \<and> wg s' = wg s \<and>
              events s' = events s @ wait_trace env s"
  using assms
  by (auto simp: Run_watch_and_block_def watch_outcome_def wait_trace_def log_event_def
      split: option.splits)

lemma shutdown_closure_finishes:
  assumes "wg s > 0"
  shows "\<exists>s'. shutdown_closure env sid t False s = Finished s' \<and>
              appSrv s' = appSrv s \<and> metricsSrv s' = metricsSrv s \<and>
              running s' = running s \<and> wg s' = wg s - 1 \<and>
              events s' = events s @ [Shutdown sid t] @ shutdown_warning env sid @ [WgDone]"
  using assms
  by (auto simp: shutdown_closure_def wg_Done_def shutdown_warning_def log_event_def Let_def
      after_Shutdown_fields split: option.splits)

lemma run_deferred_Cons_Finished:
  "call_deferred env d s = Finished s1 \<Longrightarrow> run_deferred env (d # ds) s = run_deferred env ds s1"
  by simp

lemma run_deferred_base:
  assumes "wg s = 0"
  shows "\<exists>s'. run_deferred env [Defer_wg_Wait, Defer_running_Store_false] s = Finished s' \<and>
              \<not> running s' \<and> wg s' = 0 \<and>
              events s' = events s @ [WgWait, StoreRunning False]"
  using assms by (simp add: wg_Wait_def log_event_def)

lemma run_deferred_base_blocks:
  assumes "wg s > 0"
  shows "run_deferred env [Defer_wg_Wait, Defer_running_Store_false] s = BlockedForever s"
  using assms by (simp add: wg_Wait_def)

lemma run_deferred_app:
  assumes "wg s = 1" and "appSrv s \<noteq> None"
  shows "\<exists>s'. run_deferred env [Defer_app_Shutdown, Defer_wg_Wait, Defer_running_Store_false] s
                = Finished s' \<and>
              \<not> running s' \<and> wg s' = 0 \<and>
              events s' = events s @ shutdown_trace env False"
proof -
  from assms obtain s1 where c: "shutdown_closure env AppServer 5000 False s = Finished s1"
    and w: "wg s1 = 0"
    and e: "events s1 = events s @ [Shutdown AppServer 5000] @ shutdown_warning env AppServer @ [WgDone]"
    using shutdown_closure_finishes [of s env AppServer 5000] by auto
  from run_deferred_base [OF w, of env] obtain s2 where
    r: "run_deferred env [Defer_wg_Wait, Defer_running_Store_false] s1 = Finished s2"
    and p: "\<not> running s2" "wg s2 = 0" "events s2 = events s1 @ [WgWait, StoreRunning False]"
    by blast
  have "call_deferred env Defer_app_Shutdown s = Finished s1"
    using assms(2) c by auto
  then have "run_deferred env [Defer_app_Shutdown, Defer_wg_Wait, Defer_running_Store_false] s = Finished s2"
    using r by (simp only: run_deferred_Cons_Finished)
  with p e show ?thesis by (simp add: shutdown_trace_def)
qed

lemma run_deferred_metrics:
  assumes "wg s = 2" and "appSrv s \<noteq> None" and "metricsSrv s \<noteq> None"
  shows "\<exists>s'. run_deferred env
                [Defer_metrics_Shutdown, Defer_app_Shutdown, Defer_wg_Wait, Defer_running_Store_false] s
                = Finished s' \<and>
              \<not> running s' \<and> wg s' = 0 \<and>
              events s' = events s @ shutdown_trace env True"
proof -
  from assms obtain s1 where c: "shutdown_closure env MetricsServer 500 False s = Finished s1"
    and w: "wg s1 = 1" and a: "appSrv s1 \<noteq> None"
    and e: "events s1 = events s @ [Shutdown MetricsServer 500] @ shutdown_warning env MetricsServer @ [WgDone]"
    using shutdown_closure_finishes [of s env MetricsServer 500] by auto
  from run_deferred_app [OF w a, of env] obtain s2 where
    r: "run_deferred env [Defer_app_Shutdown, Defer_wg_Wait, Defer_running_Store_false] s1 = Finished s2"
    and p: "\<not> running s2" "wg s2 = 0" "events s2 = events s1 @ shutdown_trace env False"
    by blast
  have "call_deferred env Defer_metrics_Shutdown s = Finished s1"
    using assms(3) c by auto
  then have "run_deferred env
          [Defer_metrics_Shutdown, Defer_app_Shutdown, Defer_wg_Wait, Defer_running_Store_false] s
        = Finished s2"
    using r by (simp only: run_deferred_Cons_Finished)
  with p e show ?thesis by (simp add: shutdown_trace_def)
qed


lemma run_deferred_started:
  assumes "wg s = (if with_metrics then 2 else 1)" and "appSrv s \<noteq> None"
    and "with_metrics \<longrightarrow> metricsSrv s \<noteq> None"
  shows "\<exists>s'. run_deferred env
                ((if with_metrics then [Defer_metrics_Shutdown] else []) @
                 [Defer_app_Shutdown, Defer_wg_Wait, Defer_running_Store_false]) s
                = Finished s' \<and>
              \<not> running s' \<and> wg s' = 0 \<and>
              events s' = events s @ shutdown_trace env with_metrics"
proof (cases with_metrics)
  case True
  with assms run_deferred_metrics [of s env] show ?thesis by simp
next
  case False
  with assms run_deferred_app [of s env] show ?thesis by simp
qed

text \<open>
  A startup in which every listener starts: the body of \<open>Run\<close> comes to the watch
  function with one shutdown closure deferred for each server, the counter of the wait
  group equal to their number, and the startup events in the history.
\<close>

lemma Run_body_started:
  assumes w0: "wg s = 0"
    and app: "app_starts env cfg s"
    and met: "EnableMetrics cfg \<longrightarrow> metrics_starts env cfg s"
  shows "\<exists>s2. Run_body env cfg ds (log_event CompareAndSwapRunning (s\<lparr>running := True\<rparr>)) =
                Run_watch_and_block env
                  ((if EnableMetrics cfg then [Defer_metrics_Shutdown] else []) @
                   Defer_app_Shutdown # ds) s2 \<and>
              appSrv s2 \<noteq> None \<and> (EnableMetrics cfg \<longrightarrow> metricsSrv s2 \<noteq> None) \<and>
              running s2 \<and> wg s2 = (if EnableMetrics cfg then 2 else 1) \<and>
              tlsCertWatchFn s2 = tlsCertWatchFn s \<and>
              events s2 = events s @ startup_trace cfg s"
proof -
  define s0 where "s0 = log_event CompareAndSwapRunning (s\<lparr>running := True\<rparr>)"
  define sa where "sa = wg_Add s0"
  have sa: "wg sa = 1" "running sa" "appListener sa = appListener s"
    "metricsListener sa = metricsListener s" "tlsCertWatchFn sa = tlsCertWatchFn s"
    "events sa = events s @ [CompareAndSwapRunning, WgAdd]"
    using w0 by (simp_all add: sa_def s0_def wg_Add_def log_event_def)
  have ava: "app_listener_available env cfg sa" and srv: "app_serves env sa"
    using app sa(3) by (simp_all add: app_starts_def app_listener_available_def app_serves_def)
  from startAppServer_ok [OF ava] srv obtain s1 where
    st1: "startAppServer env cfg sa = (None, s1)" and a1: "appSrv s1 \<noteq> None"
    and f1: "\<not> is_fatal (appTask s1)"
    and m1: "metricsListener s1 = metricsListener s" and t1: "tlsCertWatchFn s1 = tlsCertWatchFn s"
    and r1: "running s1" and w1: "wg s1 = 1"
    and e1: "events s1 = events s @ [CompareAndSwapRunning, WgAdd] @
                (if appListener s = None then [Listen (Bind cfg, Port cfg)] else []) @
                [GoServe AppServer]"
    using sa by auto
  have body: "Run_body env cfg ds s0 = Run_metrics env cfg (Defer_app_Shutdown # ds) s1"
    using st1 f1 by (simp add: Run_body_def sa_def)
  show ?thesis
  proof (cases "EnableMetrics cfg")
    case False
    then have "Run_body env cfg ds s0 = Run_watch_and_block env (Defer_app_Shutdown # ds) s1"
      using body by (simp add: Run_metrics_def)
    moreover have "events s1 = events s @ startup_trace cfg s"
      using e1 False by (simp add: startup_trace_def)
    ultimately show ?thesis
      using False a1 r1 w1 t1 unfolding s0_def by auto
  next
    case True
    define sb where "sb = wg_Add s1"
    have sb: "wg sb = 2" "running sb" "appSrv sb \<noteq> None" "metricsListener sb = metricsListener s"
      "tlsCertWatchFn sb = tlsCertWatchFn s" "events sb = events s1 @ [WgAdd]"
      using w1 r1 a1 m1 t1 by (simp_all add: sb_def wg_Add_def log_event_def)
    have avm: "metrics_listener_available env cfg sb" and srm: "metrics_serves env sb"
      using met True sb(4)
      by (simp_all add: metrics_starts_def metrics_listener_available_def metrics_serves_def)
    from startMetricsServer_ok [OF avm] srm obtain s2 where
      st2: "startMetricsServer env cfg sb = (None, s2)" and ms2: "metricsSrv s2 \<noteq> None"
      and f2: "\<not> is_fatal (metricsTask s2)"
      and a2: "appSrv s2 \<noteq> None" and t2: "tlsCertWatchFn s2 = tlsCertWatchFn s"
      and r2: "running s2" and w2: "wg s2 = 2"
      and e2: "events s2 = events sb @
                (if metricsListener s = None then [Listen (MetricsBind cfg, MetricsPort cfg)] else []) @
                [GoServe MetricsServer]"
      using sb by auto
    have "Run_metrics env cfg (Defer_app_Shutdown # ds) s1 =
          Run_watch_and_block env (Defer_metrics_Shutdown # Defer_app_Shutdown # ds) s2"
      using True st2 f2 by (simp add: Run_metrics_def sb_def)
    with body have "Run_body env cfg ds s0 =
          Run_watch_and_block env (Defer_metrics_Shutdown # Defer_app_Shutdown # ds) s2"
      by simp
    moreover have "events s2 = events s @ startup_trace cfg s"
      using e2 sb(6) e1 True by (simp add: startup_trace_def)
    ultimately show ?thesis
      using True a2 ms2 r2 w2 t2 unfolding s0_def by auto
  qed
qed

lemma Run_watch_and_block_blocks:
  assumes "watch_outcome env s = None" and "\<not> ctx_cancelled env"
  shows "\<exists>s'. Run_watch_and_block env ds s = BodyBlocks s' \<and> running s' = running s \<and>
              events s' = events s @ (if tlsCertWatchFn s = None then [] else [WatchTLS])"
  using assms
  by (auto simp: Run_watch_and_block_def watch_outcome_def log_event_def split: option.splits)

text \<open>
  After such a startup, a call of \<open>Run\<close> whose body comes to a \<open>return\<close> (the watch
  function failed, or the context is cancelled) does return, with the running flag reset
  and the counter back at zero.
\<close>

lemma Run_after_startup:
  assumes nr: "\<not> running s" and w0: "wg s = 0"
    and app: "app_starts env cfg s"
    and met: "EnableMetrics cfg \<longrightarrow> metrics_starts env cfg s"
    and ret: "watch_outcome env s = None \<longrightarrow> ctx_cancelled env"
  shows "\<exists>s'. Run env cfg s = Returns (map_option ErrWatchTLS (watch_outcome env s)) s' \<and>
              \<not> running s' \<and> wg s' = 0 \<and>
              events s' = events s @ startup_trace cfg s @ wait_trace env s @
                          shutdown_trace env (EnableMetrics cfg)"
proof -
  let ?base = "[Defer_wg_Wait, Defer_running_Store_false]"
  let ?stack = "(if EnableMetrics cfg then [Defer_metrics_Shutdown] else []) @ Defer_app_Shutdown # ?base"
  from Run_body_started [OF w0 app met, where ds = ?base] obtain s2 where
    body: "Run_body env cfg ?base (log_event CompareAndSwapRunning (s\<lparr>running := True\<rparr>)) =
             Run_watch_and_block env ?stack s2"
    and a2: "appSrv s2 \<noteq> None" and ms2: "EnableMetrics cfg \<longrightarrow> metricsSrv s2 \<noteq> None"
    and w2: "wg s2 = (if EnableMetrics cfg then 2 else 1)"
    and t2: "tlsCertWatchFn s2 = tlsCertWatchFn s"
    and e2: "events s2 = events s @ startup_trace cfg s"
    by blast
  have wo2: "watch_outcome env s2 = watch_outcome env s" and wt2: "wait_trace env s2 = wait_trace env s"
    using t2 by (simp_all add: watch_outcome_def wait_trace_def)
  from ret wo2 have "watch_outcome env s2 = None \<longrightarrow> ctx_cancelled env" by simp
  from Run_watch_and_block_returns [OF this, of ?stack] obtain s3 where
    b3: "Run_watch_and_block env ?stack s2 =
           BodyReturns (map_option ErrWatchTLS (watch_outcome env s2)) ?stack s3"
    and a3: "appSrv s3 = appSrv s2" and ms3: "metricsSrv s3 = metricsSrv s2" and w3: "wg s3 = wg s2"
    and e3: "events s3 = events s2 @ wait_trace env s2"
    by blast
  have "wg s3 = (if EnableMetrics cfg then 2 else 1)" "appSrv s3 \<noteq> None"
    "EnableMetrics cfg \<longrightarrow> metricsSrv s3 \<noteq> None"
    using a2 a3 ms2 ms3 w2 w3 by simp_all
  from run_deferred_started [OF this, of env] obtain s4 where
    d4: "run_deferred env ?stack s3 = Finished s4"
    and p4: "\<not> running s4" "wg s4 = 0" "events s4 = events s3 @ shutdown_trace env (EnableMetrics cfg)"
    by auto
  have "Run env cfg s = Returns (map_option ErrWatchTLS (watch_outcome env s)) s4"
    using nr body b3 d4 wo2 by (simp add: Run_def)
  moreover have "events s4 = events s @ startup_trace cfg s @ wait_trace env s @
                          shutdown_trace env (EnableMetrics cfg)"
    using p4(3) e3 e2 wt2 by simp
  ultimately show ?thesis using p4(1,2) by blast
qed

text \<open>
  If the context is never cancelled, \<open>Run\<close> stays in \<open><-ctx.Done()\<close>: this is the
  blocking that its documentation announces.
\<close>

lemma Run_blocks_without_cancellation:
  assumes nr: "\<not> running s" and w0: "wg s = 0"
    and app: "app_starts env cfg s"
    and met: "EnableMetrics cfg \<longrightarrow> metrics_starts env cfg s"
    and wo: "watch_outcome env s = None" and nc: "\<not> ctx_cancelled env"
  shows "\<exists>s'. Run env cfg s = NeverReturns s' \<and> running s' \<and>
              events s' = events s @ startup_trace cfg s @
                          (if tlsCertWatchFn s = None then [] else [WatchTLS])"
proof -
  let ?base = "[Defer_wg_Wait, Defer_running_Store_false]"
  let ?stack = "(if EnableMetrics cfg then [Defer_metrics_Shutdown] else []) @ Defer_app_Shutdown # ?base"
  from Run_body_started [OF w0 app met, where ds = ?base] obtain s2 where
    body: "Run_body env cfg ?base (log_event CompareAndSwapRunning (s\<lparr>running := True\<rparr>)) =
             Run_watch_and_block env ?stack s2"
    and r2: "running s2" and t2: "tlsCertWatchFn s2 = tlsCertWatchFn s"
    and e2: "events s2 = events s @ startup_trace cfg s"
    by blast
  have "watch_outcome env s2 = None"
    using wo t2 by (simp add: watch_outcome_def)
  from Run_watch_and_block_blocks [OF this nc, of ?stack] obtain s3 where
    b3: "Run_watch_and_block env ?stack s2 = BodyBlocks s3" and r3: "running s3 = running s2"
    and e3: "events s3 = events s2 @ (if tlsCertWatchFn s2 = None then [] else [WatchTLS])"
    by blast
  have "Run env cfg s = NeverReturns s3"
    using nr body b3 by (simp add: Run_def)
  with r2 r3 e2 e3 t2 show ?thesis by simp
qed

text \<open>
  A call of \<open>Run\<close> on a server that is running returns the error at once and leaves the
  server as it is.
\<close>

lemma Run_already_running:
  "running s \<Longrightarrow> Run env cfg s = Returns (Some ErrAlreadyRunning) s"
  by (simp add: Run_def)

text \<open>
  When the app listener cannot be created, \<open>Run\<close> reaches its \<open>return\<close> with the counter
  of the wait group at one and no closure left to call \<open>Done\<close>: the deferred \<open>Wait\<close> never
  comes back, and the deferred \<open>Store(false)\<close> behind it never runs.
\<close>

lemma Run_app_start_failure:
  assumes "\<not> running s" and "wg s = 0" and "\<not> app_listener_available env cfg s"
  shows "\<exists>s'. Run env cfg s = NeverReturns s' \<and> running s' \<and> wg s' = 1 \<and>
              events s' = events s @ [CompareAndSwapRunning, WgAdd, Listen (Bind cfg, Port cfg)]"
proof -
  define s0 where "s0 = wg_Add (log_event CompareAndSwapRunning (s\<lparr>running := True\<rparr>))"
  have s0: "running s0" "wg s0 = 1" "events s0 = events s @ [CompareAndSwapRunning, WgAdd]"
    "appListener s0 = appListener s"
    using assms(2) by (simp_all add: s0_def wg_Add_def log_event_def)
  have "\<not> app_listener_available env cfg s0"
    using assms(3) s0(4) by (simp add: app_listener_available_def)
  from startAppServer_fails [OF this] obtain err s1 where
    st: "startAppServer env cfg s0 = (Some (ErrCreateListener err), s1)"
    and p: "running s1" "wg s1 = 1" "events s1 = events s0 @ [Listen (Bind cfg, Port cfg)]"
    using s0 by auto
  have "Run_body env cfg [Defer_wg_Wait, Defer_running_Store_false]
          (log_event CompareAndSwapRunning (s\<lparr>running := True\<rparr>)) =
        BodyReturns (Some (ErrStartAppServer (ErrCreateListener err)))
          [Defer_wg_Wait, Defer_running_Store_false] s1"
    using st by (simp add: Run_body_def s0_def)
  moreover have "run_deferred env [Defer_wg_Wait, Defer_running_Store_false] s1 = BlockedForever s1"
    using p(2) by (intro run_deferred_base_blocks) simp
  ultimately have "Run env cfg s = NeverReturns s1"
    using assms(1) by (simp add: Run_def)
  with p s0 show ?thesis by simp
qed

text \<open>
  C2: \<open>Run\<close> is to reset the running flag on every way out, with an error as well as
  without. On a fresh server whose app address cannot be bound it does not: \<open>Run\<close> never
  returns, and the flag stays set with the counter of the wait group at one.
\<close>

theorem Run_bind_failure_keeps_running:
  "Run (calm_env\<lparr>net_Listen := (\<lambda>addr. Some (ExternalError ''address already in use''))\<rparr>)
       sample_cfg fresh_server =
   NeverReturns
     (fresh_server\<lparr>appSrv := Some \<lparr>Addr = (''127.0.0.1'', 4181), Handler = H2CHandler, TLSConfig = None\<rparr>,
                   running := True, wg := 1,
                   events := [CompareAndSwapRunning, WgAdd, Listen (''127.0.0.1'', 4181)]\<rparr>)"
  by code_simp

text \<open>
  When the goroutine of the app server goes to \<open>log.Fatal\<close> (its listener is a closed one
  that the server still holds, or \<open>Serve\<close> fails), the process exits under \<open>Run\<close>.
\<close>

lemma Run_app_fatal:
  assumes "\<not> running s" and "wg s = 0" and "app_listener_available env cfg s"
    and "\<not> app_serves env s"
  shows "\<exists>s'. Run env cfg s = ProcessExits s' \<and> running s'"
proof -
  define s0 where "s0 = wg_Add (log_event CompareAndSwapRunning (s\<lparr>running := True\<rparr>))"
  have s0: "running s0" "appListener s0 = appListener s"
    by (simp_all add: s0_def wg_Add_def log_event_def)
  have "app_listener_available env cfg s0" and ns: "\<not> app_serves env s0"
    using assms(3,4) s0(2) by (simp_all add: app_listener_available_def app_serves_def)
  from startAppServer_ok [OF this(1)] ns obtain s1 where
    st: "startAppServer env cfg s0 = (None, s1)" and f: "is_fatal (appTask s1)"
    and r: "running s1"
    using s0 by auto
  have "Run_body env cfg [Defer_wg_Wait, Defer_running_Store_false]
          (log_event CompareAndSwapRunning (s\<lparr>running := True\<rparr>)) = BodyExits s1"
    using st f by (simp add: Run_body_def s0_def)
  then have "Run env cfg s = ProcessExits s1"
    using assms(1) by (simp add: Run_def)
  with r show ?thesis by blast
qed

lemma Run_body_app_started:
  assumes w0: "wg s = 0" and app: "app_starts env cfg s"
  shows "\<exists>s1. Run_body env cfg ds (log_event CompareAndSwapRunning (s\<lparr>running := True\<rparr>)) =
                Run_metrics env cfg (Defer_app_Shutdown # ds) s1 \<and>
              appSrv s1 \<noteq> None \<and> running s1 \<and> wg s1 = 1 \<and>
              metricsListener s1 = metricsListener s"
proof -
  define sa where "sa = wg_Add (log_event CompareAndSwapRunning (s\<lparr>running := True\<rparr>))"
  have sa: "wg sa = 1" "running sa" "appListener sa = appListener s"
    "metricsListener sa = metricsListener s"
    using w0 by (simp_all add: sa_def wg_Add_def log_event_def)
  have ava: "app_listener_available env cfg sa" and srv: "app_serves env sa"
    using app sa(3) by (simp_all add: app_starts_def app_listener_available_def app_serves_def)
  from startAppServer_ok [OF ava] srv obtain s1 where
    st1: "startAppServer env cfg sa = (None, s1)" and a1: "appSrv s1 \<noteq> None"
    and f1: "\<not> is_fatal (appTask s1)"
    and m1: "metricsListener s1 = metricsListener s" and r1: "running s1" and w1: "wg s1 = 1"
    using sa by auto
  have "Run_body env cfg ds (log_event CompareAndSwapRunning (s\<lparr>running := True\<rparr>)) =
        Run_metrics env cfg (Defer_app_Shutdown # ds) s1"
    using st1 f1 by (simp add: Run_body_def sa_def)
  with a1 r1 w1 m1 show ?thesis by blast
qed

text \<open>
  The same happens when the metrics listener cannot be created: the closure of the app
  server brings the counter from two to one, and the deferred \<open>Wait\<close> blocks.
\<close>

lemma Run_metrics_start_failure:
  assumes "\<not> running s" and "wg s = 0" and "app_starts env cfg s"
    and "EnableMetrics cfg" and "\<not> metrics_listener_available env cfg s"
  shows "\<exists>s'. Run env cfg s = NeverReturns s' \<and> running s' \<and> wg s' = 1"
proof -
  let ?base = "[Defer_wg_Wait, Defer_running_Store_false]"
  from Run_body_app_started [OF assms(2,3), where ds = ?base] obtain s1 where
    body1: "Run_body env cfg ?base (log_event CompareAndSwapRunning (s\<lparr>running := True\<rparr>)) =
              Run_metrics env cfg (Defer_app_Shutdown # ?base) s1"
    and a1: "appSrv s1 \<noteq> None" and r1: "running s1" and w1: "wg s1 = 1"
    and m1: "metricsListener s1 = metricsListener s"
    by blast
  define sb where "sb = wg_Add s1"
  have sb: "running sb" "wg sb = 2" "appSrv sb \<noteq> None" "metricsListener sb = metricsListener s"
    using r1 w1 a1 m1 by (simp_all add: sb_def wg_Add_def log_event_def)
  have "\<not> metrics_listener_available env cfg sb"
    using assms(5) sb(4) by (simp add: metrics_listener_available_def)
  from startMetricsServer_fails [OF this] obtain err s2 where
    st2: "startMetricsServer env cfg sb = (Some (ErrCreateListener err), s2)"
    and p2: "appSrv s2 \<noteq> None" "running s2" "wg s2 = 2"
    using sb by auto
  have body: "Run_body env cfg ?base (log_event CompareAndSwapRunning (s\<lparr>running := True\<rparr>)) =
        BodyReturns (Some (ErrStartMetricsServer (ErrCreateListener err))) (Defer_app_Shutdown # ?base) s2"
    using body1 st2 assms(4) by (simp add: Run_metrics_def sb_def)
  from shutdown_closure_finishes [of s2 env AppServer 5000] p2 obtain s3 where
    c3: "shutdown_closure env AppServer 5000 False s2 = Finished s3"
    and p3: "running s3" "wg s3 = 1"
    by auto
  have "call_deferred env Defer_app_Shutdown s2 = Finished s3"
    using p2(1) c3 by auto
  then have "run_deferred env (Defer_app_Shutdown # ?base) s2 = run_deferred env ?base s3"
    by (simp only: run_deferred_Cons_Finished)
  also have "\<dots> = BlockedForever s3"
    using p3(2) by (intro run_deferred_base_blocks) simp
  finally have "Run env cfg s = NeverReturns s3"
    using assms(1) body by (simp add: Run_def)
  with p3 show ?thesis by simp
qed

lemma Run_metrics_fatal:
  assumes "\<not> running s" and "wg s = 0" and "app_starts env cfg s"
    and "EnableMetrics cfg" and "metrics_listener_available env cfg s"
    and "\<not> metrics_serves env s"
  shows "\<exists>s'. Run env cfg s = ProcessExits s' \<and> running s'"
proof -
  let ?base = "[Defer_wg_Wait, Defer_running_Store_false]"
  from Run_body_app_started [OF assms(2,3), where ds = ?base] obtain s1 where
    body1: "Run_body env cfg ?base (log_event CompareAndSwapRunning (s\<lparr>running := True\<rparr>)) =
              Run_metrics env cfg (Defer_app_Shutdown # ?base) s1"
    and r1: "running s1" and m1: "metricsListener s1 = metricsListener s"
    by blast
  define sb where "sb = wg_Add s1"
  have sb: "running sb" "metricsListener sb = metricsListener s"
    using r1 m1 by (simp_all add: sb_def wg_Add_def log_event_def)
  have "metrics_listener_available env cfg sb" and ns: "\<not> metrics_serves env sb"
    using assms(5,6) sb(2) by (simp_all add: metrics_listener_available_def metrics_serves_def)
  from startMetricsServer_ok [OF this(1)] ns obtain s2 where
    st2: "startMetricsServer env cfg sb = (None, s2)" and f2: "is_fatal (metricsTask s2)"
    and r2: "running s2"
    using sb by auto
  have "Run_body env cfg ?base (log_event CompareAndSwapRunning (s\<lparr>running := True\<rparr>)) =
        BodyExits s2"
    using body1 st2 f2 assms(4) by (simp add: Run_metrics_def sb_def)
  then have "Run env cfg s = ProcessExits s2"
    using assms(1) by (simp add: Run_def)
  with r2 show ?thesis by blast
qed

text \<open>
  In particular a second \<open>Run\<close> on the closed listener that a first one left in the
  server does not come back: line 351 takes the listener as it is.
\<close>

lemma Run_stale_listener:
  assumes "\<not> running s" and "wg s = 0" and "appListener s = Some l" and "l_closed l"
  shows "\<exists>s'. Run env cfg s = ProcessExits s'"
proof -
  have "app_listener_available env cfg s" "\<not> app_serves env s"
    using assms(3,4) by (simp_all add: app_listener_available_def app_serves_def)
  from Run_app_fatal [OF assms(1,2) this] show ?thesis by blast
qed

text \<open>
  Which calls of \<open>Run\<close> on a stopped server return at all, and what holds when one does.
\<close>

lemma Run_returns_iff:
  assumes "\<not> running s" and "wg s = 0"
  shows "(\<exists>r s'. Run env cfg s = Returns r s') \<longleftrightarrow>
         app_starts env cfg s \<and>
         (EnableMetrics cfg \<longrightarrow> metrics_starts env cfg s) \<and>
         (watch_outcome env s = None \<longrightarrow> ctx_cancelled env)"
proof (cases "app_listener_available env cfg s")
  case False
  with Run_app_start_failure [OF assms this] show ?thesis by (auto simp: app_starts_def)
next
  case ava: True
  show ?thesis
  proof (cases "app_serves env s")
    case False
    with Run_app_fatal [OF assms ava this] show ?thesis by (auto simp: app_starts_def)
  next
    case True
    with ava have app: "app_starts env cfg s" by (simp add: app_starts_def)
    show ?thesis
    proof (cases "EnableMetrics cfg \<longrightarrow> metrics_starts env cfg s")
      case False
      then have em: "EnableMetrics cfg" and nm: "\<not> metrics_starts env cfg s" by simp_all
      show ?thesis
      proof (cases "metrics_listener_available env cfg s")
        case False
        with Run_metrics_start_failure [OF assms app em this] nm em show ?thesis by auto
      next
        case True
        with nm have "\<not> metrics_serves env s" by (simp add: metrics_starts_def)
        with Run_metrics_fatal [OF assms app em True this] nm em show ?thesis by auto
      qed
    next
      case met: True
      show ?thesis
      proof (cases "watch_outcome env s = None \<longrightarrow> ctx_cancelled env")
        case True
        with Run_after_startup [OF assms app met this] app met show ?thesis by auto
      next
        case False
        then have "watch_outcome env s = None" "\<not> ctx_cancelled env" by simp_all
        from Run_blocks_without_cancellation [OF assms app met this] False show ?thesis by auto
      qed
    qed
  qed
qed

lemma Run_returns_resets_running:
  assumes "\<not> running s" and "wg s = 0" and "Run env cfg s = Returns r s'"
  shows "\<not> running s' \<and> wg s' = 0"
proof -
  from assms(3) have "\<exists>r s'. Run env cfg s = Returns r s'" by blast
  then have "app_starts env cfg s"
    "EnableMetrics cfg \<longrightarrow> metrics_starts env cfg s"
    "watch_outcome env s = None \<longrightarrow> ctx_cancelled env"
    using Run_returns_iff [OF assms(1,2)] by blast+
  from Run_after_startup [OF assms(1,2) this] assms(3) show ?thesis by auto
qed

text \<open>
  C7 as stated does not hold: \<open>Run\<close> does not wait for the listener goroutines. The
  counter of the wait group is released by the two shutdown closures of \<open>Run\<close> itself
  (lines 280 and 301), never by a serving goroutine (lines 365-378 and 414-422). With both
  servers started, the context cancelled and two goroutines that the scheduler has not yet
  let into \<open>Serve\<close>, \<open>Run\<close> returns \<open>nil\<close> while both goroutines are still running and both
  listeners are still open.
\<close>

theorem Run_returns_before_goroutines:
  "app_starts (calm_env\<lparr>progress_at_Shutdown := (\<lambda>sid. NotYetServing)\<rparr>) sample_cfg fresh_server \<and>
   EnableMetrics sample_cfg \<and>
   metrics_starts (calm_env\<lparr>progress_at_Shutdown := (\<lambda>sid. NotYetServing)\<rparr>) sample_cfg fresh_server \<and>
   ctx_cancelled (calm_env\<lparr>progress_at_Shutdown := (\<lambda>sid. NotYetServing)\<rparr>) \<and>
   Run (calm_env\<lparr>progress_at_Shutdown := (\<lambda>sid. NotYetServing)\<rparr>) sample_cfg fresh_server =
   Returns None
     \<lparr>appSrv = Some \<lparr>Addr = (''127.0.0.1'', 4181), Handler = H2CHandler, TLSConfig = None\<rparr>,
      metricsSrv = Some \<lparr>Addr = (''127.0.0.1'', 2112), Handler = MetricsMux, TLSConfig = None\<rparr>,
      tlsCertWatchFn = None, tlsConfig = None, running = False, wg = 0,
      appListener = Some \<lparr>l_addr = (''127.0.0.1'', 4181), l_closed = False\<rparr>,
      metricsListener = Some \<lparr>l_addr = (''127.0.0.1'', 2112), l_closed = False\<rparr>,
      appTask = Some TaskRunning, metricsTask = Some TaskRunning,
      events =
        [CompareAndSwapRunning,
         WgAdd, Listen (''127.0.0.1'', 4181), GoServe AppServer,
         WgAdd, Listen (''127.0.0.1'', 2112), GoServe MetricsServer,
         CtxDone,
         Shutdown MetricsServer 500, WgDone,
         Shutdown AppServer 5000, WgDone,
         WgWait, StoreRunning False]\<rparr>"
  by code_simp

text \<open>
  C7, amended: when both servers were started and serve, and the body of \<open>Run\<close> comes to
  its \<open>return\<close> (the context is cancelled, or the watch function failed), \<open>Run\<close> shuts down
  in the reverse order of the startup: \<open>Shutdown\<close> of the metrics server first (500 ms),
  then \<open>Shutdown\<close> of the app server (5 s), each followed by the \<open>Done\<close> of its closure;
  then the wait on the wait group, which finds the counter at zero; last the reset of the
  running flag; and then \<open>Run\<close> returns.
\<close>

theorem Run_ordered_shutdown:
  assumes "\<not> running s" and "wg s = 0"
    and "app_starts env cfg s"
    and "EnableMetrics cfg" and "metrics_starts env cfg s"
    and "watch_outcome env s = None \<longrightarrow> ctx_cancelled env"
  shows "\<exists>s'. Run env cfg s = Returns (map_option ErrWatchTLS (watch_outcome env s)) s' \<and>
              \<not> running s' \<and> wg s' = 0 \<and>
              events s' =
                events s @ startup_trace cfg s @ wait_trace env s @
                [Shutdown MetricsServer 500] @ shutdown_warning env MetricsServer @ [WgDone] @
                [Shutdown AppServer 5000] @ shutdown_warning env AppServer @ [WgDone] @
                [WgWait, StoreRunning False]"
  using Run_after_startup [of s env cfg] assms by (simp add: shutdown_trace_def)

theorem Run_ordered_shutdown_witness:
  "\<not> running fresh_server \<and> wg fresh_server = 0 \<and>
   app_starts calm_env sample_cfg fresh_server \<and>
   EnableMetrics sample_cfg \<and> metrics_starts calm_env sample_cfg fresh_server \<and>
   watch_outcome calm_env fresh_server = None \<and> ctx_cancelled calm_env \<and>
   map_option ErrWatchTLS (watch_outcome calm_env fresh_server) = None \<and>
   (\<exists>s'. Run calm_env sample_cfg fresh_server = Returns None s' \<and> \<not> running s' \<and> wg s' = 0 \<and>
         events s' =
           [CompareAndSwapRunning,
            WgAdd, Listen (''127.0.0.1'', 4181), GoServe AppServer,
            WgAdd, Listen (''127.0.0.1'', 2112), GoServe MetricsServer,
            CtxDone,
            Shutdown MetricsServer 500, WgDone,
            Shutdown AppServer 5000, WgDone,
            WgWait, StoreRunning False])"
proof -
  have h: "\<not> running fresh_server" "wg fresh_server = 0"
    "app_starts calm_env sample_cfg fresh_server"
    "EnableMetrics sample_cfg" "metrics_starts calm_env sample_cfg fresh_server"
    "watch_outcome calm_env fresh_server = None \<longrightarrow> ctx_cancelled calm_env"
    by (simp_all add: fresh_server_def calm_env_def sample_cfg_def app_starts_def app_listener_available_def app_serves_def
        metrics_starts_def metrics_listener_available_def metrics_serves_def watch_outcome_def)
  have t: "startup_trace sample_cfg fresh_server =
             [CompareAndSwapRunning, WgAdd, Listen (''127.0.0.1'', 4181), GoServe AppServer,
              WgAdd, Listen (''127.0.0.1'', 2112), GoServe MetricsServer]"
    "wait_trace calm_env fresh_server = [CtxDone]"
    "shutdown_warning calm_env MetricsServer = []" "shutdown_warning calm_env AppServer = []"
    "events fresh_server = []"
    by (simp_all add: startup_trace_def wait_trace_def shutdown_warning_def watch_outcome_def
        fresh_server_def calm_env_def sample_cfg_def)
  have w: "watch_outcome calm_env fresh_server = None" "ctx_cancelled calm_env"
    by (simp_all add: watch_outcome_def fresh_server_def calm_env_def)
  from Run_ordered_shutdown [OF h] show ?thesis
    unfolding t using h w by simp
qed

text \<open>
  C8 as stated does not hold: when \<open>Run\<close> returns the error of the watch function, the
  listeners need not be shut down yet. The deferred closures have called \<open>Shutdown\<close>, but
  with goroutines that had not entered \<open>Serve\<close> there was no listener for it to close, and
  only the goroutines' own deferred \<open>Close\<close> will close them: \<open>Run\<close> returns with both
  listeners open.
\<close>

theorem Run_watch_error_listeners_open:
  "tlsCertWatchFn (fresh_server\<lparr>tlsCertWatchFn := Some ''/etc/tfa''\<rparr>) = Some ''/etc/tfa'' \<and>
   watch_result
     (calm_env\<lparr>watch_result := (\<lambda>provider. Some (ExternalError ''watcher failed'')),
               progress_at_Shutdown := (\<lambda>sid. NotYetServing)\<rparr>) ''/etc/tfa'' =
     Some (ExternalError ''watcher failed'') \<and>
   Run (calm_env\<lparr>watch_result := (\<lambda>provider. Some (ExternalError ''watcher failed'')),
                 progress_at_Shutdown := (\<lambda>sid. NotYetServing)\<rparr>)
       sample_cfg (fresh_server\<lparr>tlsCertWatchFn := Some ''/etc/tfa''\<rparr>) =
   Returns (Some (ErrWatchTLS (ExternalError ''watcher failed'')))
     \<lparr>appSrv = Some \<lparr>Addr = (''127.0.0.1'', 4181), Handler = H2CHandler, TLSConfig = None\<rparr>,
      metricsSrv = Some \<lparr>Addr = (''127.0.0.1'', 2112), Handler = MetricsMux, TLSConfig = None\<rparr>,
      tlsCertWatchFn = Some ''/etc/tfa'', tlsConfig = None, running = False, wg = 0,
      appListener = Some \<lparr>l_addr = (''127.0.0.1'', 4181), l_closed = False\<rparr>,
      metricsListener = Some \<lparr>l_addr = (''127.0.0.1'', 2112), l_closed = False\<rparr>,
      appTask = Some TaskRunning, metricsTask = Some TaskRunning,
      events =
        [CompareAndSwapRunning,
         WgAdd, Listen (''127.0.0.1'', 4181), GoServe AppServer,
         WgAdd, Listen (''127.0.0.1'', 2112), GoServe MetricsServer,
         WatchTLS,
         Shutdown MetricsServer 500, WgDone,
         Shutdown AppServer 5000, WgDone,
         WgWait, StoreRunning False]\<rparr>"
  by code_simp

text \<open>
  C8, amended: when the servers were started and serve, and the watch function is present
  and returns an error, \<open>Run\<close> returns that error wrapped, after the same deferred closures
  have called \<open>Shutdown\<close> on every server that was started. When instead the context is
  cancelled, \<open>Run\<close> returns \<open>nil\<close> whatever the \<open>Shutdown\<close> calls return: their errors
  are only logged as warnings.
\<close>

theorem Run_watch_error_and_shutdown_errors:
  assumes "\<not> running s" and "wg s = 0"
    and "app_starts env cfg s"
    and "EnableMetrics cfg \<longrightarrow> metrics_starts env cfg s"
  shows "(\<forall>provider err.
            tlsCertWatchFn s = Some provider \<and> watch_result env provider = Some err \<longrightarrow>
            (\<exists>s'. Run env cfg s = Returns (Some (ErrWatchTLS err)) s' \<and> \<not> running s' \<and>
                  events s' = events s @ startup_trace cfg s @ [WatchTLS] @
                              shutdown_trace env (EnableMetrics cfg))) \<and>
         (watch_outcome env s = None \<and> ctx_cancelled env \<longrightarrow>
            (\<exists>s'. Run env cfg s = Returns None s' \<and> \<not> running s' \<and>
                  events s' = events s @ startup_trace cfg s @ wait_trace env s @
                              shutdown_trace env (EnableMetrics cfg) \<and>
                  (\<forall>err. srv_Shutdown env AppServer = Some err \<longrightarrow>
                         LogWarn AppServer err \<in> set (events s')) \<and>
                  (\<forall>err. EnableMetrics cfg \<and> srv_Shutdown env MetricsServer = Some err \<longrightarrow>
                         LogWarn MetricsServer err \<in> set (events s'))))"
proof (intro conjI allI impI)
  fix provider err
  assume w: "tlsCertWatchFn s = Some provider \<and> watch_result env provider = Some err"
  then have wo: "watch_outcome env s = Some err" and wt: "wait_trace env s = [WatchTLS]"
    by (simp_all add: watch_outcome_def wait_trace_def)
  from Run_after_startup [OF assms] wo wt
  show "\<exists>s'. Run env cfg s = Returns (Some (ErrWatchTLS err)) s' \<and> \<not> running s' \<and>
             events s' = events s @ startup_trace cfg s @ [WatchTLS] @
                         shutdown_trace env (EnableMetrics cfg)"
    by auto
next
  assume c: "watch_outcome env s = None \<and> ctx_cancelled env"
  with Run_after_startup [OF assms] obtain s' where
    r: "Run env cfg s = Returns None s'" and nr: "\<not> running s'"
    and e: "events s' = events s @ startup_trace cfg s @ wait_trace env s @
                         shutdown_trace env (EnableMetrics cfg)"
    by auto
  have a: "\<forall>err. srv_Shutdown env AppServer = Some err \<longrightarrow> LogWarn AppServer err \<in> set (events s')"
    unfolding e by (simp add: shutdown_trace_def shutdown_warning_def)
  have m: "\<forall>err. EnableMetrics cfg \<and> srv_Shutdown env MetricsServer = Some err \<longrightarrow>
                 LogWarn MetricsServer err \<in> set (events s')"
    unfolding e by (simp add: shutdown_trace_def shutdown_warning_def)
  from r nr e a m
  show "\<exists>s'. Run env cfg s = Returns None s' \<and> \<not> running s' \<and>
                  events s' = events s @ startup_trace cfg s @ wait_trace env s @
                              shutdown_trace env (EnableMetrics cfg) \<and>
                  (\<forall>err. srv_Shutdown env AppServer = Some err \<longrightarrow>
                         LogWarn AppServer err \<in> set (events s')) \<and>
                  (\<forall>err. EnableMetrics cfg \<and> srv_Shutdown env MetricsServer = Some err \<longrightarrow>
                         LogWarn MetricsServer err \<in> set (events s'))"
    by blast
qed


theorem Run_watch_error_and_shutdown_errors_witness:
  "tlsCertWatchFn (fresh_server\<lparr>tlsCertWatchFn := Some ''/etc/tfa''\<rparr>) = Some ''/etc/tfa'' \<and>
   watch_result (calm_env\<lparr>watch_result := (\<lambda>provider. Some (ExternalError ''watcher failed''))\<rparr>)
     ''/etc/tfa'' = Some (ExternalError ''watcher failed'') \<and>
   (\<exists>s'. Run (calm_env\<lparr>watch_result := (\<lambda>provider. Some (ExternalError ''watcher failed''))\<rparr>)
             sample_cfg (fresh_server\<lparr>tlsCertWatchFn := Some ''/etc/tfa''\<rparr>) =
           Returns (Some (ErrWatchTLS (ExternalError ''watcher failed''))) s' \<and> \<not> running s' \<and>
         events s' =
           [CompareAndSwapRunning,
            WgAdd, Listen (''127.0.0.1'', 4181), GoServe AppServer,
            WgAdd, Listen (''127.0.0.1'', 2112), GoServe MetricsServer,
            WatchTLS,
            Shutdown MetricsServer 500, WgDone,
            Shutdown AppServer 5000, WgDone,
            WgWait, StoreRunning False]) \<and>
   srv_Shutdown (calm_env\<lparr>srv_Shutdown := (\<lambda>sid. Some (ExternalError ''context deadline exceeded''))\<rparr>)
     AppServer = Some (ExternalError ''context deadline exceeded'') \<and>
   (\<exists>s'. Run (calm_env\<lparr>srv_Shutdown := (\<lambda>sid. Some (ExternalError ''context deadline exceeded''))\<rparr>)
             sample_cfg fresh_server = Returns None s' \<and> \<not> running s' \<and>
         LogWarn AppServer (ExternalError ''context deadline exceeded'') \<in> set (events s') \<and>
         LogWarn MetricsServer (ExternalError ''context deadline exceeded'') \<in> set (events s'))"
proof -
  let ?envw = "calm_env\<lparr>watch_result := (\<lambda>provider. Some (ExternalError ''watcher failed''))\<rparr>"
  let ?sw = "fresh_server\<lparr>tlsCertWatchFn := Some ''/etc/tfa''\<rparr>"
  let ?envs = "calm_env\<lparr>srv_Shutdown := (\<lambda>sid. Some (ExternalError ''context deadline exceeded''))\<rparr>"
  have hw: "\<not> running ?sw" "wg ?sw = 0" "app_starts ?envw sample_cfg ?sw"
    "EnableMetrics sample_cfg \<longrightarrow> metrics_starts ?envw sample_cfg ?sw"
    by (simp_all add: fresh_server_def calm_env_def sample_cfg_def app_starts_def app_listener_available_def app_serves_def
        metrics_starts_def metrics_listener_available_def metrics_serves_def)
  have w: "tlsCertWatchFn ?sw = Some ''/etc/tfa'' \<and>
           watch_result ?envw ''/etc/tfa'' = Some (ExternalError ''watcher failed'')"
    by (simp add: fresh_server_def calm_env_def)
  have tw: "startup_trace sample_cfg ?sw =
             [CompareAndSwapRunning, WgAdd, Listen (''127.0.0.1'', 4181), GoServe AppServer,
              WgAdd, Listen (''127.0.0.1'', 2112), GoServe MetricsServer]"
    "shutdown_trace ?envw (EnableMetrics sample_cfg) =
       [Shutdown MetricsServer 500, WgDone, Shutdown AppServer 5000, WgDone,
        WgWait, StoreRunning False]"
    "events ?sw = []"
    by (simp_all add: startup_trace_def shutdown_trace_def shutdown_warning_def
        fresh_server_def calm_env_def sample_cfg_def)
  from Run_watch_error_and_shutdown_errors [OF hw, THEN conjunct1] w
  have first: "\<exists>s'. Run ?envw sample_cfg ?sw =
                  Returns (Some (ErrWatchTLS (ExternalError ''watcher failed''))) s' \<and> \<not> running s' \<and>
                events s' = events ?sw @ startup_trace sample_cfg ?sw @ [WatchTLS] @
                            shutdown_trace ?envw (EnableMetrics sample_cfg)"
    by blast
  have hs: "\<not> running fresh_server" "wg fresh_server = 0"
    "app_starts ?envs sample_cfg fresh_server"
    "EnableMetrics sample_cfg \<longrightarrow> metrics_starts ?envs sample_cfg fresh_server"
    by (simp_all add: fresh_server_def calm_env_def sample_cfg_def app_starts_def app_listener_available_def app_serves_def
        metrics_starts_def metrics_listener_available_def metrics_serves_def)
  have c: "watch_outcome ?envs fresh_server = None \<and> ctx_cancelled ?envs"
    by (simp add: watch_outcome_def fresh_server_def calm_env_def)
  have sd: "srv_Shutdown ?envs AppServer = Some (ExternalError ''context deadline exceeded'')"
    "EnableMetrics sample_cfg \<and>
     srv_Shutdown ?envs MetricsServer = Some (ExternalError ''context deadline exceeded'')"
    by (simp_all add: calm_env_def sample_cfg_def)
  from Run_watch_error_and_shutdown_errors [OF hs, THEN conjunct2] c sd
  have second: "\<exists>s'. Run ?envs sample_cfg fresh_server = Returns None s' \<and> \<not> running s' \<and>
         LogWarn AppServer (ExternalError ''context deadline exceeded'') \<in> set (events s') \<and>
         LogWarn MetricsServer (ExternalError ''context deadline exceeded'') \<in> set (events s')"
    by blast
  from first second w sd(1) show ?thesis
    unfolding tw by simp
qed

end
